theory Spec2Isabelle
  imports Main "HOL-Library.AList" "HOL-Library.List_Lexorder" "HOL-Library.Char_ord"
begin

unbundle bit_operations_syntax

section \<open>Python values\<close>

text \<open>
  The program is \<^verbatim>\<open>auto-description.py\<close>. Its functions are embedded one by one, under
  their own names. Python strings are \<^typ>\<open>string\<close>; Python's unbounded integers are
  \<^typ>\<open>nat\<close> where the code only has non-negative values (MAC values, masks) and
  \<^typ>\<open>int\<close> for time stamps. An exception is a value of \<open>exn\<close>; a function that can
  raise returns \<open>exn + 'a\<close>, with \<open>Inl\<close> for the raised exception. None of the
  exception classes below is a subclass of another: in particular netaddr declares
  \<^verbatim>\<open>class AddrFormatError(Exception)\<close>, so a handler for \<open>ValueError\<close> does not
  catch it.
\<close>

datatype exn = AddrFormatError | NotRegisteredError | KeyError | IndexError | ValueError
  | TypeError | StopIteration

text \<open>\<^verbatim>\<open>s.split(sep)\<close> for a one-character separator, and \<^verbatim>\<open>s.startswith(p)\<close>.\<close>

fun str_split :: "char \<Rightarrow> string \<Rightarrow> string list" where
  "str_split sep [] = [[]]"
| "str_split sep (c # cs) =
     (if c = sep then [] # str_split sep cs
      else (case str_split sep cs of [] \<Rightarrow> [[c]] | w # ws \<Rightarrow> (c # w) # ws))"

definition startswith :: "string \<Rightarrow> string \<Rightarrow> bool" where
  "startswith s p = (take (length p) s = p)"

text \<open>Subscripting a list: \<^verbatim>\<open>xs[i]\<close> raises \<open>IndexError\<close> out of range.\<close>

definition subscript :: "'a list \<Rightarrow> nat \<Rightarrow> exn + 'a" where
  "subscript xs i = (if i < length xs then Inr (xs ! i) else Inl IndexError)"

text \<open>Character classes of the regular expressions, on ASCII text.\<close>

definition is_digit :: "char \<Rightarrow> bool" where
  "is_digit c = (let n = (of_char c :: nat) in 48 \<le> n \<and> n \<le> 57)"

definition is_upper_hex :: "char \<Rightarrow> bool" where
  "is_upper_hex c = (let n = (of_char c :: nat) in (48 \<le> n \<and> n \<le> 57) \<or> (65 \<le> n \<and> n \<le> 70))"

definition is_hex :: "char \<Rightarrow> bool" where
  "is_hex c = (let n = (of_char c :: nat) in
     (48 \<le> n \<and> n \<le> 57) \<or> (65 \<le> n \<and> n \<le> 70) \<or> (97 \<le> n \<and> n \<le> 102))"

definition is_space :: "char \<Rightarrow> bool" where
  "is_space c = (let n = (of_char c :: nat) in n = 32 \<or> (9 \<le> n \<and> n \<le> 13))"

definition hex_value :: "char \<Rightarrow> nat" where
  "hex_value c = (let n = (of_char c :: nat) in
     if 48 \<le> n \<and> n \<le> 57 then n - 48
     else if 65 \<le> n \<and> n \<le> 70 then n - 55
     else if 97 \<le> n \<and> n \<le> 102 then n - 87 else 0)"

text \<open>\<^verbatim>\<open>int(w, 16)\<close> and \<^verbatim>\<open>int(w)\<close> on a run of digits the caller has checked.\<close>

definition hex_number :: "string \<Rightarrow> nat" where
  "hex_number w = foldl (\<lambda>a c. 16 * a + hex_value c) 0 w"

definition dec_number :: "string \<Rightarrow> nat" where
  "dec_number w = foldl (\<lambda>a c. 10 * a + hex_value c) 0 w"

definition upper_hex_char :: "nat \<Rightarrow> char" where
  "upper_hex_char d = (''0123456789ABCDEF'') ! (d mod 16)"

definition lower_hex_char :: "nat \<Rightarrow> char" where
  "lower_hex_char d = (''0123456789abcdef'') ! (d mod 16)"

text \<open>The \<open>n\<close> low hexadecimal digits of \<open>v\<close>, most significant first, in upper case:
  \<^verbatim>\<open>'%.12X' % v\<close> is \<open>hex_fixed 12 v\<close> when \<open>v < 16 ^ 12\<close>.\<close>

fun hex_fixed :: "nat \<Rightarrow> nat \<Rightarrow> string" where
  "hex_fixed 0 v = []"
| "hex_fixed (Suc n) v = hex_fixed n (v div 16) @ [upper_hex_char (v mod 16)]"

definition upper :: "string \<Rightarrow> string" where
  "upper s = map (\<lambda>c. let n = (of_char c :: nat) in
     if 97 \<le> n \<and> n \<le> 122 then char_of (n - 32) else c) s"

section \<open>The netaddr library: \<open>EUI\<close>\<close>

text \<open>
  \<^verbatim>\<open>netaddr.EUI(addr)\<close> is not code of this repository; it is modelled after netaddr's
  \<^verbatim>\<open>strategy/eui48.py\<close>, \<^verbatim>\<open>strategy/eui64.py\<close> and \<^verbatim>\<open>eui/__init__.py\<close>.
  A string is tried against the EUI-48 formats, then as a decimal integer below
  \<open>2 ^ 48\<close>, then against the EUI-64 formats, then as a decimal integer below \<open>2 ^ 64\<close>;
  when nothing fits, \<open>AddrFormatError\<close> is raised. The formats are anchored regular
  expressions, compiled with \<^verbatim>\<open>re.IGNORECASE\<close>, of \<open>k\<close> words of \<open>lo\<close> to \<open>hi\<close>
  hexadecimal digits joined by one separator; \<^verbatim>\<open>$\<close> also matches before one final
  newline.
\<close>

datatype eui = EUI (version: nat) (val: nat)

definition chomp :: "string \<Rightarrow> string" where
  "chomp s = (if s \<noteq> [] \<and> last s = CHR 0x0A then butlast s else s)"

definition match_words :: "char \<Rightarrow> nat \<Rightarrow> nat \<Rightarrow> nat \<Rightarrow> string \<Rightarrow> string list option" where
  "match_words sep k lo hi s =
     (let ws = str_split sep s in
      if length ws = k \<and> list_all (\<lambda>w. lo \<le> length w \<and> length w \<le> hi \<and> list_all is_hex w) ws
      then Some ws else None)"

definition match_bare :: "nat \<Rightarrow> string \<Rightarrow> string list option" where
  "match_bare n s = (if length s = n \<and> list_all is_hex s then Some [s] else None)"

fun first_match :: "'a option list \<Rightarrow> 'a option" where
  "first_match [] = None"
| "first_match (Some x # _) = Some x"
| "first_match (None # ms) = first_match ms"

text \<open>The words, each printed with \<open>width\<close> hexadecimal digits, joined and read as one number.\<close>

definition words_to_int :: "nat \<Rightarrow> string list \<Rightarrow> nat" where
  "words_to_int width ws = foldl (\<lambda>a w. a * 16 ^ width + hex_number w) 0 ws"

definition eui48_str_to_int :: "string \<Rightarrow> nat option" where
  "eui48_str_to_int addr =
     (let s = chomp addr in
      case first_match
        [match_words (CHR '':'') 6 1 2 s, match_words (CHR ''-'') 6 1 2 s,
         match_words (CHR '':'') 3 1 4 s, match_words (CHR ''-'') 3 1 4 s,
         match_words (CHR ''.'') 3 1 4 s,
         match_words (CHR ''-'') 2 5 6 s, match_words (CHR '':'') 2 5 6 s,
         match_bare 12 s, match_bare 11 s] of
        None \<Rightarrow> None
      | Some ws \<Rightarrow>
          Some (if length ws = 6 then words_to_int 2 ws
                else if length ws = 3 then words_to_int 4 ws
                else if length ws = 2 then words_to_int 6 ws
                else words_to_int 12 ws))"

definition eui64_str_to_int :: "string \<Rightarrow> nat option" where
  "eui64_str_to_int addr =
     (let s = chomp addr in
      case first_match
        [match_words (CHR '':'') 8 1 2 s, match_words (CHR ''-'') 8 1 2 s,
         match_words (CHR '':'') 4 1 4 s, match_words (CHR ''-'') 4 1 4 s,
         match_words (CHR ''.'') 4 1 4 s,
         match_bare 16 s] of
        None \<Rightarrow> None
      | Some ws \<Rightarrow>
          Some (if length ws = 8 then words_to_int 2 ws
                else if length ws = 4 then words_to_int 4 ws
                else words_to_int 16 ws))"

text \<open>\<^verbatim>\<open>int(value)\<close> on a string: an optionally signed run of decimal digits, white space
  around it stripped; \<open>None\<close> is Python's \<open>ValueError\<close>. (Digit separators and
  non-ASCII digits are left out.)\<close>

definition strip :: "string \<Rightarrow> string" where
  "strip s = rev (dropWhile is_space (rev (dropWhile is_space s)))"

definition py_int :: "string \<Rightarrow> int option" where
  "py_int s =
     (let t = strip s;
          neg = (t \<noteq> [] \<and> hd t = CHR ''-'');
          ds = (if t \<noteq> [] \<and> (hd t = CHR ''-'' \<or> hd t = CHR ''+'') then tl t else t)
      in if ds \<noteq> [] \<and> list_all is_digit ds
         then Some (if neg then - int (dec_number ds) else int (dec_number ds))
         else None)"

definition int_in_range :: "string \<Rightarrow> nat \<Rightarrow> nat option" where
  "int_in_range s width =
     (case py_int s of
        None \<Rightarrow> None
      | Some n \<Rightarrow> if 0 \<le> n \<and> n < 2 ^ width then Some (nat n) else None)"

definition netaddr_EUI :: "string \<Rightarrow> exn + eui" where
  "netaddr_EUI addr =
     (case eui48_str_to_int addr of
        Some v \<Rightarrow> Inr (EUI 48 v)
      | None \<Rightarrow>
     (case int_in_range addr 48 of
        Some v \<Rightarrow> Inr (EUI 48 v)
      | None \<Rightarrow>
     (case eui64_str_to_int addr of
        Some v \<Rightarrow> Inr (EUI 64 v)
      | None \<Rightarrow>
     (case int_in_range addr 64 of
        Some v \<Rightarrow> Inr (EUI 64 v)
      | None \<Rightarrow> Inl AddrFormatError))))"

text \<open>\<^verbatim>\<open>netaddr.EUI(n)\<close> for an integer \<open>n \<ge> 0\<close>: the version follows from the size.\<close>

definition netaddr_EUI_int :: "nat \<Rightarrow> exn + eui" where
  "netaddr_EUI_int n =
     (if n \<le> 0xFFFFFFFFFFFF then Inr (EUI 48 n)
      else if n \<le> 0xFFFFFFFFFFFFFFFF then Inr (EUI 64 n)
      else Inl TypeError)"

text \<open>
  \<^verbatim>\<open>e.dialect = netaddr.mac_bare; str(e)\<close>. The dialect \<open>mac_bare\<close> has one word of 48
  bits, the format \<^verbatim>\<open>'%.12X'\<close> and the empty separator: the result is twelve upper-case
  hexadecimal digits with no delimiter. A value that does not fit one 48-bit word makes
  netaddr's \<^verbatim>\<open>int_to_words\<close> raise \<open>IndexError\<close>.
\<close>

definition str_mac_bare :: "eui \<Rightarrow> exn + string" where
  "str_mac_bare e = (if val e < 2 ^ 48 then Inr (hex_fixed 12 (val e)) else Inl IndexError)"

text \<open>\<^verbatim>\<open>e.oui.registration().org\<close>: the organisation netaddr's bundled IEEE registry has
  for the OUI of \<open>e\<close>; \<open>NotRegisteredError\<close> when it has none. The registry is a
  parameter.\<close>

definition oui_registration_org :: "(nat \<times> string) list \<Rightarrow> eui \<Rightarrow> exn + string" where
  "oui_registration_org ieee e =
     (case map_of ieee (if version e = 48 then drop_bit 24 (val e) else drop_bit 40 (val e)) of
        None \<Rightarrow> Inl NotRegisteredError
      | Some org \<Rightarrow> Inr org)"

section \<open>The json library\<close>

text \<open>
  The cache is a Python \<open>dict\<close> from strings to strings. It is an association list in
  insertion order with distinct keys: \<open>map_of\<close> reads it and \<open>AList.update\<close> writes
  it (a new key goes to the end, an old one keeps its place), as Python's \<open>dict\<close> does.

  \<^verbatim>\<open>json.dumps\<close> writes such a dictionary with the separators \<^verbatim>\<open>", "\<close> and
  \<^verbatim>\<open>": "\<close> and escapes every character outside the printable ASCII range.
  \<^verbatim>\<open>json.loads\<close> is modelled on JSON objects whose members are strings, which is what
  the program stores; other text is taken as undecodable (\<open>ValueError\<close>).
\<close>

type_synonym db = "(string \<times> string) list"

definition json_escape :: "char \<Rightarrow> string" where
  "json_escape c =
     (let n = (of_char c :: nat) in
      if c = CHR 0x22 then [CHR 0x5C, CHR 0x22]
      else if c = CHR 0x5C then [CHR 0x5C, CHR 0x5C]
      else if c = CHR 0x0A then [CHR 0x5C, CHR ''n'']
      else if c = CHR 0x0D then [CHR 0x5C, CHR ''r'']
      else if c = CHR 0x09 then [CHR 0x5C, CHR ''t'']
      else if c = CHR 0x08 then [CHR 0x5C, CHR ''b'']
      else if c = CHR 0x0C then [CHR 0x5C, CHR ''f'']
      else if n < 32 \<or> 126 < n
        then [CHR 0x5C, CHR ''u'', CHR ''0'', CHR ''0'', lower_hex_char (n div 16), lower_hex_char n]
      else [c])"

definition json_string :: "string \<Rightarrow> string" where
  "json_string s = [CHR 0x22] @ concat (map json_escape s) @ [CHR 0x22]"

fun json_members :: "db \<Rightarrow> string" where
  "json_members [] = []"
| "json_members [(k, v)] = json_string k @ '': '' @ json_string v"
| "json_members ((k, v) # m # ms) =
     json_string k @ '': '' @ json_string v @ '', '' @ json_members (m # ms)"

definition json_dumps :: "db \<Rightarrow> string" where
  "json_dumps d = ''{'' @ json_members d @ ''}''"

datatype json_token = TLBrace | TRBrace | TColon | TComma | TString string | TBad

datatype lex_state = Outside | InString string | Escape string | Unicode string string

definition json_unescape :: "char \<Rightarrow> char option" where
  "json_unescape c =
     (if c = CHR 0x22 \<or> c = CHR 0x5C \<or> c = CHR ''/'' then Some c
      else if c = CHR ''n'' then Some (CHR 0x0A)
      else if c = CHR ''r'' then Some (CHR 0x0D)
      else if c = CHR ''t'' then Some (CHR 0x09)
      else if c = CHR ''b'' then Some (CHR 0x08)
      else if c = CHR ''f'' then Some (CHR 0x0C)
      else None)"

fun json_lex :: "lex_state \<Rightarrow> string \<Rightarrow> json_token list" where
  "json_lex Outside [] = []"
| "json_lex (InString acc) [] = [TBad]"
| "json_lex (Escape acc) [] = [TBad]"
| "json_lex (Unicode acc hs) [] = [TBad]"
| "json_lex Outside (c # cs) =
     (if c = CHR '' '' \<or> c = CHR 0x09 \<or> c = CHR 0x0A \<or> c = CHR 0x0D then json_lex Outside cs
      else if c = CHR ''{'' then TLBrace # json_lex Outside cs
      else if c = CHR ''}'' then TRBrace # json_lex Outside cs
      else if c = CHR '':'' then TColon # json_lex Outside cs
      else if c = CHR '','' then TComma # json_lex Outside cs
      else if c = CHR 0x22 then json_lex (InString []) cs
      else [TBad])"
| "json_lex (InString acc) (c # cs) =
     (if c = CHR 0x22 then TString (rev acc) # json_lex Outside cs
      else if c = CHR 0x5C then json_lex (Escape acc) cs
      else if (of_char c :: nat) < 32 then [TBad]
      else json_lex (InString (c # acc)) cs)"
| "json_lex (Escape acc) (c # cs) =
     (if c = CHR ''u'' then json_lex (Unicode acc []) cs
      else (case json_unescape c of
              None \<Rightarrow> [TBad]
            | Some x \<Rightarrow> json_lex (InString (x # acc)) cs))"
| "json_lex (Unicode acc hs) (c # cs) =
     (if \<not> is_hex c then [TBad]
      else if length hs < 3 then json_lex (Unicode acc (hs @ [c])) cs
      else if hex_number (hs @ [c]) < 256
        then json_lex (InString (char_of (hex_number (hs @ [c])) # acc)) cs
      else [TBad])"

fun json_parse_members :: "json_token list \<Rightarrow> db \<Rightarrow> db option" where
  "json_parse_members (TString k # TColon # TString v # ts) d =
     (case ts of
        [TRBrace] \<Rightarrow> Some (AList.update k v d)
      | TComma # ts' \<Rightarrow> json_parse_members ts' (AList.update k v d)
      | _ \<Rightarrow> None)"
| "json_parse_members _ d = None"

definition json_loads :: "string \<Rightarrow> exn + db" where
  "json_loads s =
     (case json_lex Outside s of
        TLBrace # ts \<Rightarrow>
          (if ts = [TRBrace] then Inr []
           else (case json_parse_members ts [] of None \<Rightarrow> Inl ValueError | Some d \<Rightarrow> Inr d))
      | _ \<Rightarrow> Inl ValueError)"

section \<open>The world outside the program\<close>

text \<open>
  What the program reads and changes outside itself is one record. \<open>cvp\<close> is the
  configlet store behind CloudVision's REST interface, by configlet name; \<open>cvp_up\<close>
  says whether \<^verbatim>\<open>RestClient.connect()\<close> succeeds. \<open>clock\<close> is
  \<^verbatim>\<open>datetime.utcnow()\<close> in microseconds since the epoch. \<open>curl_messages\<close> is the
  \<^verbatim>\<open>"messages"\<close> list of the device's reply to the curl command (\<open>None\<close>: the reply
  has no such key). \<open>ieee\<close> is netaddr's bundled registry. \<open>trace\<close> records, in
  order, the commands sent to the device and the writes sent to the store.
\<close>

record configlet =
  key :: string
  dateTimeInLongFormat :: int
  config :: string

datatype event = RunCmd string | AddConfiglet string string | UpdateConfiglet string string string

record world =
  cvp_up :: bool
  cvp :: "(string \<times> configlet) list"
  clock :: int
  curl_messages :: "string list option"
  ieee :: "(nat \<times> string) list"
  trace :: "event list"

definition CVP_URL :: string where "CVP_URL = ''https://www.arista.io/cvpservice''"
definition OUI24_MASK :: nat where "OUI24_MASK = 0xFFFFFF000000"
definition OUI28_MASK :: nat where "OUI28_MASK = 0xFFFFFFF00000"
definition OUI36_MASK :: nat where "OUI36_MASK = 0xFFFFFFFFF000"
definition SECONDS_PER_24H :: int where "SECONDS_PER_24H = 86400"
definition OUI_CONFIGLET :: string where "OUI_CONFIGLET = ''oui.json''"
definition VRF_DEFAULT :: string where "VRF_DEFAULT = ''default''"
definition EXTERNAL_OUI_LOOKUP :: bool where "EXTERNAL_OUI_LOOKUP = True"
definition CURL_TIMEOUT :: string where "CURL_TIMEOUT = ''300''"
definition OUI_LIST :: string where
  "OUI_LIST = ''https://gitlab.com/wireshark/wireshark/-/raw/master/manuf''"

subsection \<open>The configlet store\<close>

text \<open>
  Modelled from the spec: the store itself (CloudVision behind \<open>RestClient\<close>) is not
  code of this repository. The spec gives it as \<open>exists\<close>, \<open>get\<close>, \<open>add\<close> and
  \<open>update\<close> on named objects that carry a key and a last-modified time stamp, with
  failures and no partial writes. Here \<open>add\<close> creates an object under a name that has
  none, \<open>update\<close> rewrites the object of that name and key, and both stamp it with the
  current time in milliseconds; anything else answers with an error code and changes
  nothing.
\<close>

definition store_add :: "string \<Rightarrow> string \<Rightarrow> world \<Rightarrow> bool \<times> world" where
  "store_add configlet_name configlet_data w =
     (case map_of (cvp w) configlet_name of
        Some c \<Rightarrow> (False, w)
      | None \<Rightarrow>
          (True, w\<lparr>cvp := AList.update configlet_name
             \<lparr>key = ''configlet_'' @ configlet_name,
              dateTimeInLongFormat = clock w div 1000,
              config = configlet_data\<rparr> (cvp w)\<rparr>))"

definition store_update :: "string \<Rightarrow> string \<Rightarrow> string \<Rightarrow> world \<Rightarrow> bool \<times> world" where
  "store_update configlet_key configlet_name configlet_data w =
     (case map_of (cvp w) configlet_name of
        None \<Rightarrow> (False, w)
      | Some c \<Rightarrow>
          if key c = configlet_key
          then (True, w\<lparr>cvp := AList.update configlet_name
                  (c\<lparr>dateTimeInLongFormat := clock w div 1000, config := configlet_data\<rparr>)
                  (cvp w)\<rparr>)
          else (False, w))"

text \<open>The four REST helpers of the program. \<open>configlet_add\<close> and \<open>configlet_update\<close>
  return \<^verbatim>\<open>not response.get("errorCode")\<close>, or \<open>None\<close> when the connection fails.
  \<open>configlet_exists\<close> returns \<^verbatim>\<open>(False, 0)\<close> for a missing object: the key is
  \<open>None\<close> then.\<close>

definition configlet_add :: "string \<Rightarrow> string \<Rightarrow> world \<Rightarrow> bool option \<times> world" where
  "configlet_add configlet_data configlet_name w =
     (let w1 = w\<lparr>trace := trace w @ [AddConfiglet configlet_name configlet_data]\<rparr> in
      if cvp_up w1
      then (case store_add configlet_name configlet_data w1 of (ok, w2) \<Rightarrow> (Some ok, w2))
      else (None, w1))"

definition configlet_exists :: "string \<Rightarrow> world \<Rightarrow> string option \<times> int" where
  "configlet_exists configlet_name w =
     (if cvp_up w
      then (case map_of (cvp w) configlet_name of
              Some c \<Rightarrow> (Some (key c), dateTimeInLongFormat c)
            | None \<Rightarrow> (None, 0))
      else (None, 0))"

definition configlet_get :: "string \<Rightarrow> world \<Rightarrow> string" where
  "configlet_get configlet_name w =
     (if cvp_up w
      then (case map_of (cvp w) configlet_name of
              Some c \<Rightarrow> config c
            | None \<Rightarrow> ''{}'')
      else ''{}'')"

definition configlet_update :: "string \<Rightarrow> string \<Rightarrow> string \<Rightarrow> world \<Rightarrow> bool option \<times> world" where
  "configlet_update configlet_data configlet_key configlet_name w =
     (let w1 = w\<lparr>trace := trace w @ [UpdateConfiglet configlet_key configlet_name configlet_data]\<rparr> in
      if cvp_up w1
      then (case store_update configlet_key configlet_name configlet_data w1 of
              (ok, w2) \<Rightarrow> (Some ok, w2))
      else (None, w1))"

subsection \<open>Time\<close>

text \<open>
  \<open>is_24h_old\<close>: \<^verbatim>\<open>timestamp / 1000\<close> is Python 3's true division of a count of
  milliseconds, a double, and \<^verbatim>\<open>utcfromtimestamp\<close> rounds it to datetime's resolution
  of one microsecond. For a time stamp after the epoch and below \<open>2 ^ 33\<close> seconds
  (\<open>8589934592000\<close> milliseconds, in the year 2242) the double is within half a
  microsecond of the quotient, so the stored instant is \<open>timestamp * 1000\<close>
  microseconds, exactly; the difference of the two datetimes is exact, and so is the
  comparison of \<^verbatim>\<open>total_seconds()\<close> with \<open>86400\<close>, which a double holds. The
  definition is that exact value. It is not what line 257 computes for a time stamp
  outside this range: from \<open>2 ^ 33\<close> seconds on the rounding of the division moves
  the stored instant by up to a microsecond, and past the year 9999
  \<^verbatim>\<open>utcfromtimestamp\<close> raises. The staleness rule below is stated for the range.
\<close>

definition is_24h_old :: "world \<Rightarrow> int \<Rightarrow> bool" where
  "is_24h_old w timestamp = (clock w - timestamp * 1000 > SECONDS_PER_24H * 1000000)"

section \<open>The OUI registry cache\<close>

subsection \<open>\<open>DUT.curl\<close>\<close>

text \<open>The command goes to the device; the first message of the reply is returned,
  \<open>None\<close> when the reply has no \<^verbatim>\<open>"messages"\<close> (the \<open>KeyError\<close> is caught). An empty
  list of messages raises \<open>IndexError\<close>, which is not caught.\<close>

definition curl_command :: "string \<Rightarrow> string \<Rightarrow> string" where
  "curl_command url vrf =
     ''bash timeout '' @ CURL_TIMEOUT @ '' ''
       @ (if vrf \<noteq> VRF_DEFAULT then ''sudo ip netns exec ns-'' @ vrf else [])
       @ '' curl --silent '' @ url"

definition curl :: "string \<Rightarrow> string \<Rightarrow> world \<Rightarrow> (exn + string option) \<times> world" where
  "curl url vrf w =
     (let w1 = w\<lparr>trace := trace w @ [RunCmd (curl_command url vrf)]\<rparr>
      in case curl_messages w1 of
           None \<Rightarrow> (Inr None, w1)
         | Some [] \<Rightarrow> (Inl IndexError, w1)
         | Some (m # ms) \<Rightarrow> (Inr (Some m), w1))"

text \<open>The fetch returns no content: line 75, \<^verbatim>\<open>not response\<close>, holds for \<open>None\<close> and
  for the empty string.\<close>

definition no_content :: "world \<Rightarrow> bool" where
  "no_content w =
     (case curl_messages w of None \<Rightarrow> True | Some [] \<Rightarrow> False | Some (m # ms) \<Rightarrow> m = [])"

subsection \<open>\<open>OUI_PATTERN\<close>\<close>

text \<open>
  \<^verbatim>\<open>^(?P<oui>([0-9A-F]{2}[:]){2,5}([0-9A-F]{2}))(\/\d+)?\s(?P<org>\S+).*$\<close> under
  \<^verbatim>\<open>re.MULTILINE\<close>, as \<^verbatim>\<open>re.finditer\<close> applies it. A match starts at the start of a
  line. The repetition is greedy, and giving a group back never helps, because the
  octet that would then end \<open>oui\<close> is followed by a colon: so \<open>oui\<close> is the longest
  run of two to five groups \<^verbatim>\<open>XX:\<close> and one more octet \<^verbatim>\<open>XX\<close>, three to six octets in
  all. For the same reason the optional \<^verbatim>\<open>/digits\<close> takes all its digits. \<^verbatim>\<open>\s\<close> is one
  white-space character; it can be the newline that ends the line, and then \<open>org\<close>
  is read from the next line, which the match consumes. \<open>org\<close> is the longest run of
  characters that are not white space, and is not empty.
\<close>

fun octet_groups :: "nat \<Rightarrow> string \<Rightarrow> nat" where
  "octet_groups (Suc n) (a # b # c # s) =
     (if is_upper_hex a \<and> is_upper_hex b \<and> c = CHR '':'' then Suc (octet_groups n s) else 0)"
| "octet_groups n s = 0"

text \<open>The group \<open>oui\<close> at the start of a line, and the rest of the line.\<close>

definition match_oui :: "string \<Rightarrow> (string \<times> string) option" where
  "match_oui l =
     (let k = octet_groups 5 l; r = drop (3 * k) l in
      if 2 \<le> k \<and> 2 \<le> length r \<and> is_upper_hex (r ! 0) \<and> is_upper_hex (r ! 1)
      then Some (take (3 * k + 2) l, drop 2 r) else None)"

definition skip_bits :: "string \<Rightarrow> string" where
  "skip_bits r =
     (if 2 \<le> length r \<and> r ! 0 = CHR ''/'' \<and> is_digit (r ! 1) then dropWhile is_digit (tl r) else r)"

text \<open>One attempt at the start of line \<open>l\<close>, with the next line when there is one:
  the groups \<open>oui\<close> and \<open>org\<close>, and whether the match took the next line.\<close>

definition match_line :: "string \<Rightarrow> string option \<Rightarrow> (string \<times> string \<times> bool) option" where
  "match_line l nxt =
     (case match_oui l of
        None \<Rightarrow> None
      | Some (oui, r) \<Rightarrow>
          (case skip_bits r of
             [] \<Rightarrow>
               (case nxt of
                  None \<Rightarrow> None
                | Some l' \<Rightarrow>
                    (let org = takeWhile (\<lambda>c. \<not> is_space c) l' in
                     if org = [] then None else Some (oui, org, True)))
           | c # t \<Rightarrow>
               (let org = takeWhile (\<lambda>c. \<not> is_space c) t in
                if is_space c \<and> org \<noteq> [] then Some (oui, org, False) else None)))"

fun finditer_lines :: "string list \<Rightarrow> (string \<times> string) list" where
  "finditer_lines [] = []"
| "finditer_lines [l] =
     (case match_line l None of None \<Rightarrow> [] | Some (oui, org, _) \<Rightarrow> [(oui, org)])"
| "finditer_lines (l # l' # ls) =
     (case match_line l (Some l') of
        None \<Rightarrow> finditer_lines (l' # ls)
      | Some (oui, org, took_next) \<Rightarrow>
          (oui, org) # (if took_next then finditer_lines ls else finditer_lines (l' # ls)))"

definition finditer :: "string \<Rightarrow> (string \<times> string) list" where
  "finditer response = finditer_lines (str_split (CHR 0x0A) response)"

subsection \<open>\<open>DUT.oui_list._download\<close>\<close>

text \<open>Lines 83 to 88: the key under which a matched prefix is stored.\<close>

definition oui_key :: "string \<Rightarrow> exn + string" where
  "oui_key oui =
     (case netaddr_EUI (if length oui = 8 then oui @ '':00:00:00'' else oui) of
        Inl e \<Rightarrow> Inl e
      | Inr e \<Rightarrow> str_mac_bare e)"

text \<open>Lines 92 and 93: the merge of one binding into the dictionary.\<close>

definition merge_binding :: "db \<Rightarrow> string \<Rightarrow> string \<Rightarrow> db" where
  "merge_binding d oui org =
     (if map_of d oui = None \<or> map_of d oui = Some ''IEEERegi'' then AList.update oui org d else d)"

text \<open>The \<^verbatim>\<open>for match in matches\<close> loop. An exception leaves the loop and the function.\<close>

fun download_loop :: "(string \<times> string) list \<Rightarrow> db \<Rightarrow> exn + db" where
  "download_loop [] d = Inr d"
| "download_loop ((oui, org) # matches) d =
     (case oui_key oui of
        Inl e \<Rightarrow> Inl e
      | Inr k \<Rightarrow> download_loop matches (merge_binding d k org))"

definition download :: "string \<Rightarrow> world \<Rightarrow> (exn + db) \<times> world" where
  "download vrf w =
     (case curl OUI_LIST vrf w of
        (Inl e, w1) \<Rightarrow> (Inl e, w1)
      | (Inr None, w1) \<Rightarrow> (Inr [], w1)
      | (Inr (Some response), w1) \<Rightarrow>
          if response = [] then (Inr [], w1)
          else (download_loop (finditer response) [], w1))"

subsection \<open>\<open>DUT.oui_list\<close>\<close>

text \<open>Python's truth value of the key that \<open>configlet_exists\<close> returns, and line 98.\<close>

definition truthy :: "string option \<Rightarrow> bool" where
  "truthy k = (case k of None \<Rightarrow> False | Some s \<Rightarrow> s \<noteq> [])"

definition update_needed :: "world \<Rightarrow> string option \<times> int \<Rightarrow> bool" where
  "update_needed w kt =
     (case kt of (k, timestamp) \<Rightarrow> \<not> truthy k \<or> (timestamp \<noteq> 0 \<and> is_24h_old w timestamp))"

text \<open>Lines 99 to 106: the refresh. \<open>db\<close> is the serialised download, a string.\<close>

definition refresh :: "string \<Rightarrow> string option \<Rightarrow> world \<Rightarrow> exn option \<times> world" where
  "refresh vrf k w =
     (case download vrf w of
        (Inl e, w1) \<Rightarrow> (Some e, w1)
      | (Inr d, w1) \<Rightarrow>
          (let db = json_dumps d in
           if db \<noteq> [] \<and> \<not> truthy k then (None, snd (configlet_add db OUI_CONFIGLET w1))
           else if db \<noteq> [] \<and> truthy k
             then (None, snd (configlet_update db (case k of Some s \<Rightarrow> s | None \<Rightarrow> []) OUI_CONFIGLET w1))
           else (None, w1)))"

definition oui_list :: "string \<Rightarrow> world \<Rightarrow> (exn + db) \<times> world" where
  "oui_list vrf w =
     (let kt = configlet_exists OUI_CONFIGLET w in
      case (if update_needed w kt then refresh vrf (fst kt) w else (None, w)) of
        (Some e, w2) \<Rightarrow> (Inl e, w2)
      | (None, w2) \<Rightarrow> (json_loads (configlet_get OUI_CONFIGLET w2), w2))"

section \<open>The MAC organisation resolver\<close>

text \<open>The loop of lines 117 to 123 over the masks: \<open>Some org\<close> at the first mask whose
  key is in \<open>d\<close> (the \<^verbatim>\<open>break\<close>), \<open>None\<close> when the loop runs out.\<close>

fun lookup_masks :: "nat list \<Rightarrow> nat \<Rightarrow> db \<Rightarrow> exn + string option" where
  "lookup_masks [] v d = Inr None"
| "lookup_masks (m # masks) v d =
     (case netaddr_EUI_int (v AND m) of
        Inl e \<Rightarrow> Inl e
      | Inr oui \<Rightarrow>
          (case str_mac_bare oui of
             Inl e \<Rightarrow> Inl e
           | Inr k \<Rightarrow>
               (case map_of d k of
                  Some org \<Rightarrow> Inr (Some org)
                | None \<Rightarrow> lookup_masks masks v d)))"

text \<open>Line 131: the last six characters of the bare form, in pairs joined by colons.\<close>

definition last_six :: "string \<Rightarrow> string" where
  "last_six s =
     (let t = drop (length s - 6) s in
      take 2 t @ '':'' @ take 2 (drop 2 t) @ '':'' @ take 2 (drop 4 t))"

text \<open>\<open>org_from_mac\<close>, with the module constant \<open>EXTERNAL_OUI_LOOKUP\<close> as a parameter,
  so that both branches of line 115 can be stated. Lines 115 to 128 give \<open>org\<close>;
  the \<^verbatim>\<open>else\<close> of line 124 belongs to the \<^verbatim>\<open>if\<close> of line 115.\<close>

definition resolve_org :: "bool \<Rightarrow> eui \<Rightarrow> string \<Rightarrow> world \<Rightarrow> (exn + string) \<times> world" where
  "resolve_org external mac_address vrf w =
     (if external
      then (case oui_list vrf w of
              (Inl e, w1) \<Rightarrow> (Inl e, w1)
            | (Inr d, w1) \<Rightarrow>
                (case lookup_masks [OUI36_MASK, OUI28_MASK, OUI24_MASK] (val mac_address) d of
                   Inl e \<Rightarrow> (Inl e, w1)
                 | Inr None \<Rightarrow> (Inr ''Unknown'', w1)
                 | Inr (Some org) \<Rightarrow> (Inr org, w1)))
      else (case oui_registration_org (ieee w) mac_address of
              Inl e \<Rightarrow> (if e = NotRegisteredError then (Inr ''Unknown'', w) else (Inl e, w))
            | Inr org \<Rightarrow> (Inr org, w)))"

definition org_from_mac_with :: "bool \<Rightarrow> string \<Rightarrow> string \<Rightarrow> world \<Rightarrow> (exn + string) \<times> world" where
  "org_from_mac_with external mac_address vrf w =
     (case netaddr_EUI mac_address of
        Inl e \<Rightarrow> (Inl e, w)
      | Inr mac \<Rightarrow>
          (case resolve_org external mac vrf w of
             (Inl e, w1) \<Rightarrow> (Inl e, w1)
           | (Inr org, w1) \<Rightarrow>
               (case str_mac_bare mac of
                  Inl e \<Rightarrow> (Inl e, w1)
                | Inr s \<Rightarrow> (Inr (org @ '', '' @ last_six s), w1))))"

definition org_from_mac :: "string \<Rightarrow> string \<Rightarrow> world \<Rightarrow> (exn + string) \<times> world" where
  "org_from_mac = org_from_mac_with EXTERNAL_OUI_LOOKUP"

text \<open>\<open>is_mac\<close>: only \<open>AddrFormatError\<close> is caught; on a string \<open>netaddr.EUI\<close> raises
  nothing else.\<close>

definition is_mac :: "string \<Rightarrow> bool" where
  "is_mac mac_address = (case netaddr_EUI mac_address of Inl e \<Rightarrow> False | Inr e \<Rightarrow> True)"

section \<open>The neighbour description synthesiser\<close>

subsection \<open>Device state\<close>

text \<open>
  The device's replies are JSON trees; the program reads them as dictionaries. A key
  the program looks up is a field here, optional where the program expects that it
  can be missing or where a \<open>KeyError\<close> would follow. \<open>interface_name\<close> is the
  key \<^verbatim>\<open>"interface"\<close> of a MAC table entry. \<open>comments\<close> is the list of comment
  lines of a section of the running configuration, \<open>cmds\<close> the keys of its commands.
\<close>

record neighbor_interface_info =
  interfaceIdType :: "string option"
  interfaceId_v2 :: "string option"
  interfaceDescription :: "string option"

record neighbor =
  systemName :: "string option"
  chassisId :: "string option"
  neighborInterfaceInfo :: "neighbor_interface_info option"

record table_entry =
  interface_name :: "string option"
  macAddress :: "string option"

record interface =
  name :: string
  interfaceMembership :: "string option"
  lldp_neighbors :: "neighbor list option"
  mac_address_table :: "table_entry list option"

record config_section =
  comments :: "string list option"
  cmds :: "string list option"

type_synonym running_config = "(string \<times> config_section) list"

text \<open>\<^verbatim>\<open>p in s\<close> on strings.\<close>

fun contains :: "string \<Rightarrow> string \<Rightarrow> bool" where
  "contains p [] = (p = [])"
| "contains p (c # cs) = (startswith (c # cs) p \<or> contains p cs)"

subsection \<open>\<open>vrf_from_terminattr\<close>\<close>

fun vrf_of_args :: "string list \<Rightarrow> string \<Rightarrow> exn + string" where
  "vrf_of_args [] vrf = Inr vrf"
| "vrf_of_args (arg # args) vrf =
     (if \<not> startswith arg ''-cvvrf'' then vrf_of_args args vrf
      else (case subscript (str_split (CHR ''='') arg) 1 of
              Inl e \<Rightarrow> Inl e
            | Inr v \<Rightarrow> vrf_of_args args v))"

definition vrf_from_terminattr :: "running_config \<Rightarrow> exn + string" where
  "vrf_from_terminattr rc =
     (case (case map_of rc ''daemon TerminAttr'' of None \<Rightarrow> None | Some sec \<Rightarrow> cmds sec) of
        None \<Rightarrow> Inr VRF_DEFAULT
      | Some keys \<Rightarrow>
          (case find (contains ''exec'') keys of
             None \<Rightarrow> Inr VRF_DEFAULT
           | Some k \<Rightarrow> vrf_of_args (str_split (CHR '' '') k) VRF_DEFAULT))"

subsection \<open>\<open>auto_description\<close>\<close>

text \<open>
  The state of one run: the set \<open>port_channels\<close>, what has been printed, and the
  world. One element of \<open>printed\<close> is one call
  \<^verbatim>\<open>print(TEMPLATE.render(interface=i, description=d))\<close>, kept as the pair \<open>(i, d)\<close>;
  \<open>render\<close> is the text of the template for it.
\<close>

record run_state =
  port_channels :: "string set"
  printed :: "(string \<times> string) list"
  wld :: world

definition render :: "string \<times> string \<Rightarrow> string" where
  "render b = ''interface '' @ fst b @ [CHR 0x0A] @ ''   description '' @ upper (snd b)"

text \<open>Lines 164 to 174.\<close>

definition neighbor_interface_id :: "neighbor \<Rightarrow> exn + string" where
  "neighbor_interface_id nb =
     (case neighborInterfaceInfo nb of
        None \<Rightarrow> Inl KeyError
      | Some info \<Rightarrow>
          (case interfaceIdType info of
             None \<Rightarrow> Inl KeyError
           | Some t \<Rightarrow>
               if t = ''interfaceName''
               then (case interfaceId_v2 info of None \<Rightarrow> Inl KeyError | Some i \<Rightarrow> Inr i)
               else (case interfaceDescription info of None \<Rightarrow> Inl KeyError | Some i \<Rightarrow> Inr i)))"

text \<open>Lines 180 to 191: a missing \<^verbatim>\<open>"interfaceMembership"\<close> is the caught \<open>KeyError\<close>;
  a membership text of fewer than three words raises \<open>IndexError\<close>.\<close>

definition port_channel_step :: "interface \<Rightarrow> string \<Rightarrow> run_state \<Rightarrow> exn option \<times> run_state" where
  "port_channel_step intf description st =
     (case interfaceMembership intf of
        None \<Rightarrow> (None, st)
      | Some m \<Rightarrow>
          (case subscript (str_split (CHR '' '') m) 2 of
             Inl e \<Rightarrow> (Some e, st)
           | Inr port_channel \<Rightarrow>
               (None, st\<lparr>printed :=
                          (if port_channel \<notin> port_channels st
                           then printed st @ [(port_channel, description)] else printed st),
                        port_channels := insert port_channel (port_channels st)\<rparr>)))"

text \<open>Lines 155 to 194: the description from the single LLDP neighbour.\<close>

definition neighbor_description ::
    "string \<Rightarrow> interface \<Rightarrow> neighbor \<Rightarrow> run_state \<Rightarrow> (exn + string) \<times> run_state" where
  "neighbor_description vrf intf nb st =
     (case (case systemName nb of
              Some s \<Rightarrow> Inr s
            | None \<Rightarrow> (case chassisId nb of Some c \<Rightarrow> Inr c | None \<Rightarrow> Inl KeyError)) of
        Inl e \<Rightarrow> (Inl e, st)
      | Inr description \<Rightarrow>
          if is_mac description
          then (case org_from_mac description vrf (wld st) of (r, w1) \<Rightarrow> (r, st\<lparr>wld := w1\<rparr>))
          else (case neighbor_interface_id nb of
                  Inl e \<Rightarrow> (Inl e, st)
                | Inr nid \<Rightarrow>
                    (let d = (case str_split (CHR ''.'') description of [] \<Rightarrow> [] | h # _ \<Rightarrow> h) in
                     case port_channel_step intf d st of
                       (Some e, st1) \<Rightarrow> (Inl e, st1)
                     | (None, st1) \<Rightarrow> (Inr (d @ '', '' @ nid), st1))))"

text \<open>Lines 153 to 199: \<open>description\<close>, \<open>None\<close> when neither branch applies.\<close>

definition interface_description ::
    "string \<Rightarrow> interface \<Rightarrow> run_state \<Rightarrow> (exn + string option) \<times> run_state" where
  "interface_description vrf intf st =
     (case lldp_neighbors intf of
        Some [nb] \<Rightarrow>
          (case neighbor_description vrf intf nb st of
             (Inl e, st1) \<Rightarrow> (Inl e, st1)
           | (Inr d, st1) \<Rightarrow> (Inr (Some d), st1))
      | _ \<Rightarrow>
          (case mac_address_table intf of
             Some [entry] \<Rightarrow>
               (case macAddress entry of
                  None \<Rightarrow> (Inl KeyError, st)
                | Some mac_address \<Rightarrow>
                    (case org_from_mac mac_address vrf (wld st) of
                       (Inl e, w1) \<Rightarrow> (Inl e, st\<lparr>wld := w1\<rparr>)
                     | (Inr d, w1) \<Rightarrow> (Inr (Some d), st\<lparr>wld := w1\<rparr>)))
           | _ \<Rightarrow> (Inr None, st)))"

text \<open>The body of the loop of line 144 for one interface.\<close>

definition auto_description_step ::
    "running_config \<Rightarrow> string \<Rightarrow> interface \<Rightarrow> run_state \<Rightarrow> exn option \<times> run_state" where
  "auto_description_step rc vrf intf st =
     (if \<not> startswith (name intf) ''Ethernet'' \<and> \<not> startswith (name intf) ''Management''
      then (None, st)
      else (case map_of rc (''interface '' @ name intf) of
              None \<Rightarrow> (Some KeyError, st)
            | Some cfg \<Rightarrow>
                (case comments cfg of
                   None \<Rightarrow> (Some KeyError, st)
                 | Some cs \<Rightarrow>
                     if ''no auto-description'' \<in> set cs then (None, st)
                     else (case interface_description vrf intf st of
                             (Inl e, st1) \<Rightarrow> (Some e, st1)
                           | (Inr None, st1) \<Rightarrow> (None, st1)
                           | (Inr (Some d), st1) \<Rightarrow>
                               if d \<noteq> []
                               then (None, st1\<lparr>printed := printed st1 @ [(name intf, d)]\<rparr>)
                               else (None, st1)))))"

fun auto_description_loop ::
    "running_config \<Rightarrow> string \<Rightarrow> interface list \<Rightarrow> run_state \<Rightarrow> exn option \<times> run_state" where
  "auto_description_loop rc vrf [] st = (None, st)"
| "auto_description_loop rc vrf (intf # intfs) st =
     (case auto_description_step rc vrf intf st of
        (Some e, st1) \<Rightarrow> (Some e, st1)
      | (None, st1) \<Rightarrow> auto_description_loop rc vrf intfs st1)"

text \<open>\<open>auto_description(dut, interfaces, running_config)\<close>; \<open>dut\<close> is the world. The
  interfaces are the values of a dictionary, sorted by name (Python's sort is stable,
  as \<open>sort_key\<close> is).\<close>

definition auto_description ::
    "(string \<times> interface) list \<Rightarrow> running_config \<Rightarrow> world \<Rightarrow> exn option \<times> run_state" where
  "auto_description interfaces rc w =
     (let st = \<lparr>port_channels = {}, printed = [], wld = w\<rparr> in
      case vrf_from_terminattr rc of
        Inl e \<Rightarrow> (Some e, st)
      | Inr vrf \<Rightarrow> auto_description_loop rc vrf (sort_key name (map snd interfaces)) st)"

subsection \<open>\<open>main\<close>\<close>

text \<open>The replies to the four \<^verbatim>\<open>show\<close> commands, already subscripted as lines 314 to
  317 do. An entry of \<open>lldpNeighbors\<close> carries its \<^verbatim>\<open>"lldpNeighborInfo"\<close>, if any.\<close>

record device =
  interfaces :: "(string \<times> interface) list"
  lldpNeighbors :: "(string \<times> neighbor list option) list"
  tableEntries :: "table_entry list"
  running_config_cmds :: running_config

fun lldp_neighbors_to_interfaces ::
    "(string \<times> interface) list \<Rightarrow> (string \<times> neighbor list option) list \<Rightarrow> (string \<times> interface) list" where
  "lldp_neighbors_to_interfaces ifs [] = ifs"
| "lldp_neighbors_to_interfaces ifs ((n, info) # rest) =
     lldp_neighbors_to_interfaces
       (case info of
          None \<Rightarrow> ifs
        | Some nbs \<Rightarrow>
            (case map_of ifs n of
               None \<Rightarrow> ifs
             | Some i \<Rightarrow> AList.update n (i\<lparr>lldp_neighbors := Some nbs\<rparr>) ifs))
       rest"

fun mac_address_table_to_interfaces ::
    "(string \<times> interface) list \<Rightarrow> table_entry list \<Rightarrow> (string \<times> interface) list" where
  "mac_address_table_to_interfaces ifs [] = ifs"
| "mac_address_table_to_interfaces ifs (entry # rest) =
     mac_address_table_to_interfaces
       (case interface_name entry of
          None \<Rightarrow> ifs
        | Some n \<Rightarrow>
            (case map_of ifs n of
               None \<Rightarrow> ifs
             | Some i \<Rightarrow>
                 AList.update n
                   (i\<lparr>mac_address_table :=
                        Some ((case mac_address_table i of None \<Rightarrow> [] | Some es \<Rightarrow> es) @ [entry])\<rparr>)
                   ifs))
       rest"

definition main :: "device \<Rightarrow> world \<Rightarrow> exn option \<times> run_state" where
  "main dev w =
     auto_description
       (mac_address_table_to_interfaces
          (lldp_neighbors_to_interfaces (interfaces dev) (lldpNeighbors dev))
          (tableEntries dev))
       (running_config_cmds dev) w"

text \<open>Lines 324 to 328: \<^verbatim>\<open>try: main() except ValueError: pass\<close>. The result \<open>Some e\<close>
  is an exception that nothing caught: the interpreter prints the traceback and the
  script fails.\<close>

definition script :: "device \<Rightarrow> world \<Rightarrow> exn option \<times> run_state" where
  "script dev w =
     (case main dev w of
        (Some e, st) \<Rightarrow> (if e = ValueError then (None, st) else (Some e, st))
      | (None, st) \<Rightarrow> (None, st))"

section \<open>The invariant of the port-channel set\<close>

text \<open>How many of the printed blocks are for the interface \<open>p\<close>.\<close>

definition emitted :: "string \<Rightarrow> run_state \<Rightarrow> nat" where
  "emitted p st = length (filter (\<lambda>b. fst b = p) (printed st))"

text \<open>A name that the loop of \<open>auto_description\<close> does not take as an interface of its
  own (line 145) has at most one block, and none before it is in \<open>port_channels\<close>.\<close>

definition once_inv :: "run_state \<Rightarrow> bool" where
  "once_inv st =
     (\<forall>p. \<not> startswith p ''Ethernet'' \<and> \<not> startswith p ''Management'' \<longrightarrow>
          emitted p st \<le> 1 \<and> (p \<notin> port_channels st \<longrightarrow> emitted p st = 0))"

section \<open>Example inputs\<close>

text \<open>A reachable store holding \<open>store\<close>, the clock at \<open>now\<close> microseconds, and a
  device whose reply to the curl command carries \<open>msgs\<close>.\<close>

definition example_world :: "(string \<times> configlet) list \<Rightarrow> int \<Rightarrow> string list option \<Rightarrow> world" where
  "example_world store now msgs =
     \<lparr>cvp_up = True, cvp = store, clock = now, curl_messages = msgs,
      ieee = [(0x001B21, ''Intel'')], trace = []\<rparr>"

text \<open>The cache object, last written at \<open>ts\<close> milliseconds and holding \<open>d\<close>.\<close>

definition example_cache :: "int \<Rightarrow> db \<Rightarrow> (string \<times> configlet) list" where
  "example_cache ts d =
     [(''oui.json'', \<lparr>key = ''configlet_oui.json'', dateTimeInLongFormat = ts, config = json_dumps d\<rparr>)]"

text \<open>A device with the one interface \<open>Ethernet1\<close>, no LLDP neighbour, and one MAC
  table entry for it with the address \<open>mac\<close>.\<close>

definition example_device :: "string \<Rightarrow> device" where
  "example_device mac =
     \<lparr>interfaces = [(''Ethernet1'', \<lparr>name = ''Ethernet1'', interfaceMembership = None,
                                      lldp_neighbors = None, mac_address_table = None\<rparr>)],
      lldpNeighbors = [],
      tableEntries = [\<lparr>interface_name = Some ''Ethernet1'', macAddress = Some mac\<rparr>],
      running_config_cmds = [(''interface Ethernet1'', \<lparr>comments = Some [], cmds = Some []\<rparr>)]\<rparr>"

text \<open>A member of \<open>Port-Channel1\<close> named \<open>n\<close>, whose single LLDP neighbour is
  \<open>host1.example.com\<close> on the port \<open>nid\<close>; and the configuration sections of two
  such members.\<close>

definition example_member :: "string \<Rightarrow> string \<Rightarrow> interface" where
  "example_member n nid =
     \<lparr>name = n, interfaceMembership = Some ''Member of Port-Channel1'',
      lldp_neighbors = Some
        [\<lparr>systemName = Some ''host1.example.com'', chassisId = Some ''00:1B:21:AA:BB:CC'',
          neighborInterfaceInfo = Some
            \<lparr>interfaceIdType = Some ''interfaceName'', interfaceId_v2 = Some nid,
             interfaceDescription = None\<rparr>\<rparr>],
      mac_address_table = None\<rparr>"

definition example_config :: running_config where
  "example_config =
     [(''interface Ethernet1'', \<lparr>comments = Some [], cmds = Some []\<rparr>),
      (''interface Ethernet2'', \<lparr>comments = Some [], cmds = Some []\<rparr>)]"

text \<open>Registry documents, in the layout of the file behind \<open>OUI_LIST\<close>: a prefix, a
  tab, the short name of the organisation and, after another tab, anything; lines end
  with a newline. The first has a 24-bit and a 36-bit prefix, the second a prefix of
  five octets between two of three, the third prefixes of two and of four octets.\<close>

definition example_registry :: string where
  "example_registry =
     ''00:00:0C'' @ [CHR 0x09] @ ''Cisco'' @ [CHR 0x09] @ ''Cisco Systems, Inc'' @ [CHR 0x0A]
     @ ''00:1B:C5:00:0F:FF/36'' @ [CHR 0x09] @ ''Converge''"

definition example_broken_registry :: string where
  "example_broken_registry =
     ''00:00:0C'' @ [CHR 0x09] @ ''Cisco'' @ [CHR 0x0A]
     @ ''AA:BB:CC:DD:EE'' @ [CHR 0x09] @ ''Broken'' @ [CHR 0x0A]
     @ ''00:1B:21'' @ [CHR 0x09] @ ''Intel''"

definition example_short_registry :: string where
  "example_short_registry =
     ''AA:BB'' @ [CHR 0x09] @ ''Short'' @ [CHR 0x0A]
     @ ''00:1B:C5:00'' @ [CHR 0x09] @ ''Four''"

section \<open>Evaluation rules\<close>

text \<open>Rules that let the simplifier run the definitions on concrete input.\<close>

lemma hex_fixed_numeral:
  "hex_fixed (numeral k) v = hex_fixed (pred_numeral k) (v div 16) @ [upper_hex_char (v mod 16)]"
  by (simp only: numeral_eq_Suc [of k] hex_fixed.simps)
lemma octet_groups_numeral:
  "octet_groups (numeral k) (a # b # c # s) =
     (if is_upper_hex a \<and> is_upper_hex b \<and> c = CHR '':'' then Suc (octet_groups (pred_numeral k) s) else 0)"
  by (simp only: numeral_eq_Suc [of k] octet_groups.simps)
lemmas netaddr_eval = netaddr_EUI_def eui48_str_to_int_def eui64_str_to_int_def chomp_def
  match_words_def match_bare_def is_hex_def words_to_int_def hex_number_def hex_value_def
  int_in_range_def py_int_def strip_def is_space_def is_digit_def dec_number_def
  str_mac_bare_def upper_hex_char_def hex_fixed_numeral
lemmas regex_eval = finditer_def match_line_def match_oui_def skip_bits_def is_upper_hex_def
  octet_groups_numeral

lemma oui_key_3: "oui_key ''00:00:0C'' = Inr ''00000C000000''"
  by (simp add: oui_key_def netaddr_eval)


section \<open>Properties of the OUI registry cache\<close>

subsection \<open>The merge rule\<close>

lemma map_of_merge_binding:
  "map_of (merge_binding d k org) k' =
     (if k' = k \<and> (map_of d k = None \<or> map_of d k = Some ''IEEERegi'') then Some org
      else map_of d k')"
  by (simp add: merge_binding_def update_conv')

lemma download_loop_keeps:
  "download_loop ms d = Inr d' \<Longrightarrow> map_of d k = Some org \<Longrightarrow> org \<noteq> ''IEEERegi''
     \<Longrightarrow> map_of d' k = Some org"
proof (induction ms arbitrary: d)
  case Nil
  then show ?case by simp
next
  case (Cons m ms)
  obtain oui org' where m: "m = (oui, org')" by (cases m)
  from Cons.prems(1) m obtain k' where k': "oui_key oui = Inr k'"
    and rest: "download_loop ms (merge_binding d k' org') = Inr d'"
    by (auto split: sum.splits)
  have "map_of (merge_binding d k' org') k = Some org"
    using Cons.prems(2,3) by (auto simp: map_of_merge_binding)
  from Cons.IH [OF rest this Cons.prems(3)] show ?case .
qed


text \<open>
  C4. During one parse and merge pass over the registry document the merge rule holds
  for every prefix: an entry bound to an organisation name other than the exact
  placeholder \<^verbatim>\<open>IEEERegi\<close> is never overwritten by a later line for the same prefix
  (whatever lines follow, as long as the pass goes through), and an entry bound to
  \<^verbatim>\<open>IEEERegi\<close> is replaced by a later line's organisation. In particular, merging a
  prefix with \<^verbatim>\<open>IEEERegi\<close> and then with \<^verbatim>\<open>Acme\<close> yields \<^verbatim>\<open>Acme\<close>, and merging it
  with \<^verbatim>\<open>Acme\<close> and then with \<^verbatim>\<open>IEEERegi\<close> also yields \<^verbatim>\<open>Acme\<close>.
\<close>

theorem merge_rule:
  "(download_loop ms d = Inr d' \<and> map_of d k = Some org \<and> org \<noteq> ''IEEERegi''
      \<longrightarrow> map_of d' k = Some org)
   \<and> (oui_key oui = Inr k \<and> map_of d k = Some ''IEEERegi''
      \<longrightarrow> download_loop [(oui, org')] d = Inr (merge_binding d k org')
          \<and> map_of (merge_binding d k org') k = Some org')
   \<and> (oui_key oui = Inr k
      \<longrightarrow> download_loop [(oui, ''IEEERegi''), (oui, ''Acme'')] [] = Inr [(k, ''Acme'')]
          \<and> download_loop [(oui, ''Acme''), (oui, ''IEEERegi'')] [] = Inr [(k, ''Acme'')])"
  by (auto simp: map_of_merge_binding merge_binding_def update_conv' dest: download_loop_keeps)

theorem merge_rule_witness:
  "download_loop [(''00:00:0C'', ''IEEERegi''), (''00:00:0C'', ''Other'')] [(''00000C000000'', ''Cisco'')]
     = Inr [(''00000C000000'', ''Cisco'')]
   \<and> map_of [(''00000C000000'', ''Cisco'')] ''00000C000000'' = Some ''Cisco''
   \<and> download_loop [(''00:00:0C'', ''Acme'')] [(''00000C000000'', ''IEEERegi'')]
       = Inr [(''00000C000000'', ''Acme'')]
   \<and> download_loop [(''00:00:0C'', ''IEEERegi''), (''00:00:0C'', ''Acme'')] [] = Inr [(''00000C000000'', ''Acme'')]
   \<and> download_loop [(''00:00:0C'', ''Acme''), (''00:00:0C'', ''IEEERegi'')] [] = Inr [(''00000C000000'', ''Acme'')]"
proof -
  let ?d = "[(''00000C000000'', ''Cisco'')]"
  let ?ms = "[(''00:00:0C'', ''IEEERegi''), (''00:00:0C'', ''Other'')]"
  have run: "download_loop ?ms ?d = Inr ?d"
    by (simp add: oui_key_3 merge_binding_def)
  have "map_of ?d ''00000C000000'' = Some ''Cisco''"
    using merge_rule [of ?ms ?d ?d "''00000C000000''" "''Cisco''"] run by simp
  moreover have "download_loop [(''00:00:0C'', ''Acme'')] [(''00000C000000'', ''IEEERegi'')]
       = Inr [(''00000C000000'', ''Acme'')]"
    using merge_rule [of "[]" "[(''00000C000000'', ''IEEERegi'')]" "[]" "''00000C000000''" "''x''"
                         "''00:00:0C''" "''Acme''"] oui_key_3
    by (simp add: merge_binding_def)
  moreover have "download_loop [(''00:00:0C'', ''IEEERegi''), (''00:00:0C'', ''Acme'')] [] = Inr [(''00000C000000'', ''Acme'')]
    \<and> download_loop [(''00:00:0C'', ''Acme''), (''00:00:0C'', ''IEEERegi'')] [] = Inr [(''00000C000000'', ''Acme'')]"
    using merge_rule [of "[]" "[]" "[]" "''00000C000000''" "''x''" "''00:00:0C''"] oui_key_3
    by simp
  ultimately show ?thesis using run by simp
qed

subsection \<open>The refresh\<close>

lemma download_no_content:
  "no_content w \<Longrightarrow>
     download vrf w = (Inr [], w\<lparr>trace := trace w @ [RunCmd (curl_command OUI_LIST vrf)]\<rparr>)"
  by (auto simp: no_content_def download_def curl_def split: option.splits list.splits)

lemma json_empty: "json_dumps [] = ''{}''" "json_loads ''{}'' = Inr []"
  by (simp_all add: json_dumps_def json_loads_def)

lemma update_needed_trace:
  "update_needed w (configlet_exists OUI_CONFIGLET w) \<Longrightarrow>
     \<exists>rest. trace (snd (oui_list vrf w)) = trace w @ RunCmd (curl_command OUI_LIST vrf) # rest"
  by (auto simp: oui_list_def refresh_def download_def curl_def configlet_add_def
      configlet_update_def store_add_def store_update_def Let_def
      split: option.splits list.splits sum.splits prod.splits if_splits)

lemma not_update_needed_same:
  "\<not> update_needed w (configlet_exists OUI_CONFIGLET w) \<Longrightarrow> snd (oui_list vrf w) = w"
  by (simp add: oui_list_def)



lemma oui_list_update_empty:
  assumes "cvp_up w" "map_of (cvp w) OUI_CONFIGLET = Some c" "key c \<noteq> []"
    "dateTimeInLongFormat c \<noteq> 0" "is_24h_old w (dateTimeInLongFormat c)" "no_content w"
  shows "oui_list vrf w =
    (Inr [], w\<lparr>trace := trace w @ [RunCmd (curl_command OUI_LIST vrf),
                                     UpdateConfiglet (key c) OUI_CONFIGLET ''{}''],
               cvp := AList.update OUI_CONFIGLET
                 (c\<lparr>dateTimeInLongFormat := clock w div 1000, config := ''{}''\<rparr>) (cvp w)\<rparr>)"
  using assms
  by (simp add: oui_list_def configlet_exists_def update_needed_def truthy_def refresh_def
      Let_def download_no_content json_empty configlet_update_def store_update_def configlet_get_def update_conv')

lemma json_example: "json_loads (json_dumps [(''001B21000000'', ''Intel'')]) = Inr [(''001B21000000'', ''Intel'')]"
  by (simp add: json_dumps_def json_string_def json_escape_def json_loads_def)


text \<open>
  C7. A persisted cache object is one the store answers with a key, which is how
  line 98 recognises it (\<open>configlet_exists\<close> gives \<open>False\<close> for the key of a missing
  object), and a last-modified time stamp in milliseconds, a moment after the epoch
  and before \<open>2 ^ 33\<close> seconds, the range in which line 257 is exact. For such an
  object a refresh is asked for exactly when now minus the time stamp is more than 24
  hours, strictly: at 24 hours and one second it is, and so it is at 24 hours and one
  microsecond and at 25 hours; at exactly 24 hours, or fresher, it is not. A refresh
  is asked for whenever the object does not exist: the store has no object of that
  name, or cannot be reached. When a refresh is asked for, \<open>oui_list\<close> first sends
  the curl command to the device; when none is asked for, it sends nothing and
  changes nothing.
\<close>

theorem staleness_rule:
  "(cvp_up w \<and> map_of (cvp w) OUI_CONFIGLET = Some c \<and> key c \<noteq> []
      \<and> 0 < dateTimeInLongFormat c \<and> dateTimeInLongFormat c < 8589934592000
      \<longrightarrow> (update_needed w (configlet_exists OUI_CONFIGLET w)
             \<longleftrightarrow> 86400 * 1000000 < clock w - dateTimeInLongFormat c * 1000))
   \<and> (\<not> cvp_up w \<or> map_of (cvp w) OUI_CONFIGLET = None
      \<longrightarrow> update_needed w (configlet_exists OUI_CONFIGLET w))
   \<and> (update_needed w (configlet_exists OUI_CONFIGLET w)
      \<longrightarrow> (\<exists>rest. trace (snd (oui_list vrf w))
                   = trace w @ RunCmd (curl_command OUI_LIST vrf) # rest))
   \<and> (\<not> update_needed w (configlet_exists OUI_CONFIGLET w) \<longrightarrow> snd (oui_list vrf w) = w)"
proof (intro conjI impI)
  assume "cvp_up w \<and> map_of (cvp w) OUI_CONFIGLET = Some c \<and> key c \<noteq> []
      \<and> 0 < dateTimeInLongFormat c \<and> dateTimeInLongFormat c < 8589934592000"
  then show "update_needed w (configlet_exists OUI_CONFIGLET w)
             \<longleftrightarrow> 86400 * 1000000 < clock w - dateTimeInLongFormat c * 1000"
    by (simp add: update_needed_def configlet_exists_def truthy_def is_24h_old_def
        SECONDS_PER_24H_def)
next
  assume "\<not> cvp_up w \<or> map_of (cvp w) OUI_CONFIGLET = None"
  then show "update_needed w (configlet_exists OUI_CONFIGLET w)"
    by (auto simp: update_needed_def configlet_exists_def truthy_def)
next
  assume "update_needed w (configlet_exists OUI_CONFIGLET w)"
  then show "\<exists>rest. trace (snd (oui_list vrf w))
                   = trace w @ RunCmd (curl_command OUI_LIST vrf) # rest"
    by (rule update_needed_trace)
next
  assume "\<not> update_needed w (configlet_exists OUI_CONFIGLET w)"
  then show "snd (oui_list vrf w) = w"
    by (rule not_update_needed_same)
qed

theorem staleness_rule_witness:
  "update_needed (example_world (example_cache 1700000000000 []) 1700086401000000 None)
     (configlet_exists OUI_CONFIGLET
        (example_world (example_cache 1700000000000 []) 1700086401000000 None))
   \<and> update_needed (example_world (example_cache 1700000000000 []) 1700086400000001 None)
     (configlet_exists OUI_CONFIGLET
        (example_world (example_cache 1700000000000 []) 1700086400000001 None))
   \<and> update_needed (example_world (example_cache 1700000000000 []) 1700090000000000 None)
     (configlet_exists OUI_CONFIGLET
        (example_world (example_cache 1700000000000 []) 1700090000000000 None))
   \<and> \<not> update_needed (example_world (example_cache 1700000000000 []) 1700086400000000 None)
     (configlet_exists OUI_CONFIGLET
        (example_world (example_cache 1700000000000 []) 1700086400000000 None))
   \<and> \<not> update_needed (example_world (example_cache 1700000000000 []) 1700000000000000 None)
     (configlet_exists OUI_CONFIGLET
        (example_world (example_cache 1700000000000 []) 1700000000000000 None))
   \<and> update_needed (example_world [] 1700086400000000 None)
       (configlet_exists OUI_CONFIGLET (example_world [] 1700086400000000 None))
   \<and> (\<exists>rest. trace (snd (oui_list ''default''
          (example_world (example_cache 1700000000000 []) 1700086401000000 None)))
        = trace (example_world (example_cache 1700000000000 []) 1700086401000000 None)
            @ RunCmd (curl_command OUI_LIST ''default'') # rest)
   \<and> snd (oui_list ''default'' (example_world (example_cache 1700000000000 []) 1700086400000000 None))
       = example_world (example_cache 1700000000000 []) 1700086400000000 None"
proof -
  let ?c = "\<lparr>key = ''configlet_oui.json'', dateTimeInLongFormat = 1700000000000,
             config = json_dumps []\<rparr>"
  let ?second = "example_world (example_cache 1700000000000 []) 1700086401000000 None"
  let ?micro = "example_world (example_cache 1700000000000 []) 1700086400000001 None"
  let ?hour = "example_world (example_cache 1700000000000 []) 1700090000000000 None"
  let ?day = "example_world (example_cache 1700000000000 []) 1700086400000000 None"
  let ?new = "example_world (example_cache 1700000000000 []) 1700000000000000 None"
  let ?none = "example_world [] 1700086400000000 None"
  have 1: "update_needed ?second (configlet_exists OUI_CONFIGLET ?second)"
    using staleness_rule [where w = ?second and c = ?c]
    by (simp add: example_world_def example_cache_def OUI_CONFIGLET_def)
  have 2: "update_needed ?micro (configlet_exists OUI_CONFIGLET ?micro)"
    using staleness_rule [where w = ?micro and c = ?c]
    by (simp add: example_world_def example_cache_def OUI_CONFIGLET_def)
  have 3: "update_needed ?hour (configlet_exists OUI_CONFIGLET ?hour)"
    using staleness_rule [where w = ?hour and c = ?c]
    by (simp add: example_world_def example_cache_def OUI_CONFIGLET_def)
  have 4: "\<not> update_needed ?day (configlet_exists OUI_CONFIGLET ?day)"
    using staleness_rule [where w = ?day and c = ?c]
    by (simp add: example_world_def example_cache_def OUI_CONFIGLET_def)
  have 5: "\<not> update_needed ?new (configlet_exists OUI_CONFIGLET ?new)"
    using staleness_rule [where w = ?new and c = ?c]
    by (simp add: example_world_def example_cache_def OUI_CONFIGLET_def)
  have 6: "update_needed ?none (configlet_exists OUI_CONFIGLET ?none)"
    using staleness_rule [where w = ?none]
    by (simp add: example_world_def)
  have 7: "\<exists>rest. trace (snd (oui_list ''default'' ?second))
        = trace ?second @ RunCmd (curl_command OUI_LIST ''default'') # rest"
    using staleness_rule [where w = ?second and vrf = "''default''"] 1 by blast
  have 8: "snd (oui_list ''default'' ?day) = ?day"
    using staleness_rule [where w = ?day and vrf = "''default''"] 4 by blast
  from 1 2 3 4 5 6 7 8 show ?thesis by blast
qed




text \<open>
  C1 says that with an existing, stale cache object and a fetch without content the
  stored mapping is left unchanged and returned. The code does otherwise: the guard of
  lines 101 and 103 tests the serialised string, \<^verbatim>\<open>{}\<close> for the empty download, which
  is true, so line 104 overwrites the stored mapping with \<^verbatim>\<open>{}\<close>, and the empty
  mapping is returned. The run below starts from a cache that binds one prefix.
\<close>

theorem stale_cache_erased_on_failed_fetch:
  "json_loads (configlet_get OUI_CONFIGLET
      (example_world (example_cache 1700000000000 [(''001B21000000'', ''Intel'')]) 1700090000000000 None))
     = Inr [(''001B21000000'', ''Intel'')]
   \<and> oui_list ''default''
      (example_world (example_cache 1700000000000 [(''001B21000000'', ''Intel'')]) 1700090000000000 None)
     = (Inr [], (example_world (example_cache 1700000000000 [(''001B21000000'', ''Intel'')]) 1700090000000000 None)
          \<lparr>trace := [RunCmd (curl_command OUI_LIST ''default''),
                      UpdateConfiglet ''configlet_oui.json'' ''oui.json'' ''{}''],
           cvp := example_cache 1700090000000 []\<rparr>)"
proof -
  let ?c = "\<lparr>key = ''configlet_oui.json'', dateTimeInLongFormat = 1700000000000,
             config = json_dumps [(''001B21000000'', ''Intel'')]\<rparr>"
  let ?w = "example_world (example_cache 1700000000000 [(''001B21000000'', ''Intel'')]) 1700090000000000 None"
  have 1: "json_loads (configlet_get OUI_CONFIGLET ?w) = Inr [(''001B21000000'', ''Intel'')]"
    by (simp add: configlet_get_def example_world_def example_cache_def OUI_CONFIGLET_def json_example)
  have "oui_list ''default'' ?w =
    (Inr [], ?w\<lparr>trace := trace ?w @ [RunCmd (curl_command OUI_LIST ''default''),
                                     UpdateConfiglet (key ?c) OUI_CONFIGLET ''{}''],
               cvp := AList.update OUI_CONFIGLET
                 (?c\<lparr>dateTimeInLongFormat := clock ?w div 1000, config := ''{}''\<rparr>) (cvp ?w)\<rparr>)"
    by (rule oui_list_update_empty)
       (simp_all add: example_world_def example_cache_def OUI_CONFIGLET_def is_24h_old_def
          SECONDS_PER_24H_def no_content_def)
  then have 2: "oui_list ''default'' ?w
     = (Inr [], ?w\<lparr>trace := [RunCmd (curl_command OUI_LIST ''default''),
                      UpdateConfiglet ''configlet_oui.json'' ''oui.json'' ''{}''],
           cvp := example_cache 1700090000000 []\<rparr>)"
    by (simp add: example_world_def example_cache_def OUI_CONFIGLET_def json_empty)
  from 1 2 show ?thesis by blast
qed

section \<open>Properties of the resolver\<close>

subsection \<open>Parsed EUI-48 values fit 48 bits\<close>

lemma hex_value_less: "hex_value c < 16"
  by (auto simp: hex_value_def Let_def)

lemma foldl_digits_bound:
  "a < 16 ^ n \<Longrightarrow> foldl (\<lambda>a c. 16 * a + hex_value c) a w < 16 ^ (n + length w)"
proof (induction w arbitrary: a n)
  case Nil
  then show ?case by simp
next
  case (Cons c w)
  have "hex_value c < 16" by (rule hex_value_less)
  moreover from Cons.prems have "Suc a \<le> 16 ^ n" by simp
  then have "16 * Suc a \<le> 16 * 16 ^ n" by (rule mult_le_mono2)
  ultimately have "16 * a + hex_value c < 16 ^ Suc n" by simp
  from Cons.IH [OF this] show ?case by simp
qed

lemma hex_number_less: "hex_number w < 16 ^ length w"
  using foldl_digits_bound [of 0 0 w] by (simp add: hex_number_def)

lemma foldl_words_bound:
  assumes "\<forall>w\<in>set ws. length w \<le> width" "a < (16 ^ width) ^ n"
  shows "foldl (\<lambda>a w. a * 16 ^ width + hex_number w) a ws < (16 ^ width) ^ (n + length ws)"
  using assms
proof (induction ws arbitrary: a n)
  case Nil
  then show ?case by simp
next
  case (Cons w ws)
  have "hex_number w < 16 ^ length w" by (rule hex_number_less)
  also have "(16::nat) ^ length w \<le> 16 ^ width"
    using Cons.prems(1) by (simp add: power_increasing)
  finally have h: "hex_number w < 16 ^ width" .
  from Cons.prems(2) have "Suc a \<le> (16 ^ width) ^ n" by simp
  then have "Suc a * 16 ^ width \<le> (16 ^ width) ^ n * 16 ^ width" by (rule mult_le_mono1)
  with h have "a * 16 ^ width + hex_number w < (16 ^ width) ^ Suc n"
    by (simp add: mult.commute)
  from Cons.IH [OF _ this] Cons.prems(1) show ?case by simp
qed

lemma words_to_int_less:
  "\<forall>w\<in>set ws. length w \<le> width \<Longrightarrow> words_to_int width ws < (16 ^ width) ^ length ws"
  using foldl_words_bound [of ws width 0 0] by (simp add: words_to_int_def)

lemma first_match_Some: "first_match ms = Some x \<Longrightarrow> Some x \<in> set ms"
  by (induction ms rule: first_match.induct) auto

lemma match_words_Some:
  "match_words sep k lo hi s = Some ws \<Longrightarrow> length ws = k \<and> (\<forall>w\<in>set ws. length w \<le> hi)"
  by (auto simp: match_words_def Let_def list_all_iff split: if_splits)

lemma match_bare_Some: "match_bare n s = Some ws \<Longrightarrow> ws = [s] \<and> length s = n"
  by (auto simp: match_bare_def split: if_splits)

lemma eui48_str_to_int_less: "eui48_str_to_int s = Some v \<Longrightarrow> v < 2 ^ 48"
proof -
  assume a: "eui48_str_to_int s = Some v"
  then obtain ws where fm: "first_match
        [match_words (CHR '':'') 6 1 2 (chomp s), match_words (CHR ''-'') 6 1 2 (chomp s),
         match_words (CHR '':'') 3 1 4 (chomp s), match_words (CHR ''-'') 3 1 4 (chomp s),
         match_words (CHR ''.'') 3 1 4 (chomp s),
         match_words (CHR ''-'') 2 5 6 (chomp s), match_words (CHR '':'') 2 5 6 (chomp s),
         match_bare 12 (chomp s), match_bare 11 (chomp s)] = Some ws"
    and v: "v = (if length ws = 6 then words_to_int 2 ws
                else if length ws = 3 then words_to_int 4 ws
                else if length ws = 2 then words_to_int 6 ws
                else words_to_int 12 ws)"
    by (auto simp: eui48_str_to_int_def Let_def split: option.splits)
  from first_match_Some [OF fm]
  consider (six) "length ws = 6" "\<forall>w\<in>set ws. length w \<le> 2"
    | (three) "length ws = 3" "\<forall>w\<in>set ws. length w \<le> 4"
    | (two) "length ws = 2" "\<forall>w\<in>set ws. length w \<le> 6"
    | (bare) "length ws = 1" "\<forall>w\<in>set ws. length w \<le> 12"
    by (auto dest!: match_words_Some [OF sym] match_bare_Some [OF sym])
  then show ?thesis
  proof cases
    case six
    with words_to_int_less [of ws 2] v show ?thesis by simp
  next
    case three
    with words_to_int_less [of ws 4] v show ?thesis by simp
  next
    case two
    with words_to_int_less [of ws 6] v show ?thesis by simp
  next
    case bare
    with words_to_int_less [of ws 12] v show ?thesis by simp
  qed
qed

lemma netaddr_EUI_48_less: "netaddr_EUI s = Inr e \<Longrightarrow> version e = 48 \<Longrightarrow> val e < 2 ^ 48"
  by (auto simp: netaddr_EUI_def int_in_range_def dest: eui48_str_to_int_less
      split: option.splits if_splits)

subsection \<open>The mask loop\<close>

lemma and_mask_le: "(v::nat) AND m \<le> m"
proof -
  have "int v AND int m \<le> int m" by (rule AND_upper2) simp
  then have "int (v AND m) \<le> int m" by (simp add: of_nat_and_eq)
  then show ?thesis by simp
qed

lemma lookup_masks_three:
  "lookup_masks [OUI36_MASK, OUI28_MASK, OUI24_MASK] v d =
     Inr (case map_of d (hex_fixed 12 (v AND OUI36_MASK)) of
            Some org \<Rightarrow> Some org
          | None \<Rightarrow>
              (case map_of d (hex_fixed 12 (v AND OUI28_MASK)) of
                 Some org \<Rightarrow> Some org
               | None \<Rightarrow> map_of d (hex_fixed 12 (v AND OUI24_MASK))))"
proof -
  have m: "OUI36_MASK \<le> 0xFFFFFFFFFFFF" "OUI28_MASK \<le> 0xFFFFFFFFFFFF" "OUI24_MASK \<le> 0xFFFFFFFFFFFF"
    by (simp_all add: OUI36_MASK_def OUI28_MASK_def OUI24_MASK_def)
  have b: "v AND k \<le> 0xFFFFFFFFFFFF" if "k \<le> 0xFFFFFFFFFFFF" for k
    using and_mask_le [of v k] that by linarith
  have e: "netaddr_EUI_int (v AND k) = Inr (EUI 48 (v AND k))" if "k \<le> 0xFFFFFFFFFFFF" for k
    using b [OF that] by (simp add: netaddr_EUI_int_def)
  have s: "str_mac_bare (EUI 48 (v AND k)) = Inr (hex_fixed 12 (v AND k))"
    if "k \<le> 0xFFFFFFFFFFFF" for k
    using b [OF that] by (simp add: str_mac_bare_def)
  show ?thesis
    by (simp add: e [OF m(1)] e [OF m(2)] e [OF m(3)] s [OF m(1)] s [OF m(2)] s [OF m(3)]
        split: option.splits)
qed

lemma org_from_mac_external:
  assumes "netaddr_EUI mac_address = Inr e" "version e = 48" "oui_list vrf w = (Inr d, w1)"
  shows "org_from_mac_with True mac_address vrf w =
    (Inr ((case map_of d (hex_fixed 12 (val e AND OUI36_MASK)) of
             Some org \<Rightarrow> org
           | None \<Rightarrow>
               (case map_of d (hex_fixed 12 (val e AND OUI28_MASK)) of
                  Some org \<Rightarrow> org
                | None \<Rightarrow>
                    (case map_of d (hex_fixed 12 (val e AND OUI24_MASK)) of
                       Some org \<Rightarrow> org
                     | None \<Rightarrow> ''Unknown'')))
          @ '', '' @ last_six (hex_fixed 12 (val e))), w1)"
  using assms netaddr_EUI_48_less [OF assms(1,2)]
  by (simp add: org_from_mac_with_def resolve_org_def lookup_masks_three str_mac_bare_def
      del: lookup_masks.simps split: option.splits)

lemma org_from_mac_static:
  assumes "netaddr_EUI mac_address = Inr e" "version e = 48"
  shows "org_from_mac_with False mac_address vrf w =
    (Inr ((case map_of (ieee w) (drop_bit 24 (val e)) of Some org \<Rightarrow> org | None \<Rightarrow> ''Unknown'')
          @ '', '' @ last_six (hex_fixed 12 (val e))), w)"
  using assms netaddr_EUI_48_less [OF assms(1,2)]
  by (simp add: org_from_mac_with_def resolve_org_def oui_registration_org_def str_mac_bare_def
      split: option.splits)

lemma netaddr_EUI_error: "netaddr_EUI s = Inl e \<Longrightarrow> e = AddrFormatError"
  by (auto simp: netaddr_EUI_def split: option.splits)

lemma org_from_mac_invalid:
  "\<not> is_mac mac_address \<Longrightarrow> org_from_mac_with ext mac_address vrf w = (Inl AddrFormatError, w)"
  by (auto simp: is_mac_def org_from_mac_with_def dest: netaddr_EUI_error split: sum.splits)

lemma eui_example:
  "netaddr_EUI ''00:1B:21:AA:BB:CC'' = Inr (EUI 48 0x001B21AABBCC)"
  by (simp add: netaddr_eval)

lemma example_keys:
  "hex_fixed 12 (0x001B21AABBCC AND OUI36_MASK) = ''001B21AAB000''"
  "hex_fixed 12 (0x001B21AABBCC AND OUI28_MASK) = ''001B21A00000''"
  "hex_fixed 12 (0x001B21AABBCC AND OUI24_MASK) = ''001B21000000''"
  "last_six (hex_fixed 12 0x001B21AABBCC) = ''AA:BB:CC''"
  by (simp_all add: OUI36_MASK_def OUI28_MASK_def OUI24_MASK_def hex_fixed_numeral
      upper_hex_char_def last_six_def)

lemma json_example2:
  "json_loads (json_dumps [(''001B21A00000'', ''Org28''), (''001B21000000'', ''Org24'')])
     = Inr [(''001B21A00000'', ''Org28''), (''001B21000000'', ''Org24'')]"
  by (simp add: json_dumps_def json_string_def json_escape_def json_loads_def)

lemma oui_list_fresh:
  assumes "cvp_up w" "map_of (cvp w) OUI_CONFIGLET = Some c" "key c \<noteq> []"
    "clock w - dateTimeInLongFormat c * 1000 \<le> 86400 * 1000000"
  shows "oui_list vrf w = (json_loads (config c), w)"
  using assms
  by (simp add: oui_list_def configlet_exists_def update_needed_def truthy_def is_24h_old_def
      SECONDS_PER_24H_def configlet_get_def)

lemma oui_list_example_empty:
  "oui_list ''default'' (example_world (example_cache 1700000000000 []) 1700000001000000 None)
     = (Inr [], example_world (example_cache 1700000000000 []) 1700000001000000 None)"
  by (subst oui_list_fresh
        [where c = "\<lparr>key = ''configlet_oui.json'', dateTimeInLongFormat = 1700000000000,
                    config = json_dumps []\<rparr>"])
     (simp_all add: example_world_def example_cache_def OUI_CONFIGLET_def json_empty)


text \<open>
  C2. For every string that netaddr reads as an EUI-48 address and every mapping that
  \<open>oui_list\<close> returns, \<open>org_from_mac\<close> tries the address's integer value under the
  36-bit mask, then the 28-bit mask, then the 24-bit mask, each re-encoded in the bare
  form, and returns the organisation bound to the first of the three that is a key of
  the mapping: a binding of the 36-bit prefix wins whatever the shorter prefixes are
  bound to, a binding of the 28-bit prefix wins over the 24-bit one when the 36-bit
  prefix has none, and the 24-bit binding is returned only when neither longer prefix
  has one.
\<close>

theorem longest_prefix_first:
  "netaddr_EUI mac_address = Inr e \<and> version e = 48 \<and> oui_list vrf w = (Inr d, w1) \<longrightarrow>
     (\<forall>org. map_of d (hex_fixed 12 (val e AND OUI36_MASK)) = Some org \<longrightarrow>
        org_from_mac mac_address vrf w = (Inr (org @ '', '' @ last_six (hex_fixed 12 (val e))), w1))
   \<and> (\<forall>org. map_of d (hex_fixed 12 (val e AND OUI36_MASK)) = None
          \<and> map_of d (hex_fixed 12 (val e AND OUI28_MASK)) = Some org \<longrightarrow>
        org_from_mac mac_address vrf w = (Inr (org @ '', '' @ last_six (hex_fixed 12 (val e))), w1))
   \<and> (\<forall>org. map_of d (hex_fixed 12 (val e AND OUI36_MASK)) = None
          \<and> map_of d (hex_fixed 12 (val e AND OUI28_MASK)) = None
          \<and> map_of d (hex_fixed 12 (val e AND OUI24_MASK)) = Some org \<longrightarrow>
        org_from_mac mac_address vrf w = (Inr (org @ '', '' @ last_six (hex_fixed 12 (val e))), w1))"
  by (simp add: org_from_mac_def EXTERNAL_OUI_LOOKUP_def org_from_mac_external)


theorem longest_prefix_first_witness:
  "org_from_mac ''00:1B:21:AA:BB:CC'' ''default''
     (example_world (example_cache 1700000000000
        [(''001B21A00000'', ''Org28''), (''001B21000000'', ''Org24'')]) 1700000001000000 None)
   = (Inr ''Org28, AA:BB:CC'',
      example_world (example_cache 1700000000000
        [(''001B21A00000'', ''Org28''), (''001B21000000'', ''Org24'')]) 1700000001000000 None)"
proof -
  let ?d = "[(''001B21A00000'', ''Org28''), (''001B21000000'', ''Org24'')]"
  let ?w = "example_world (example_cache 1700000000000 ?d) 1700000001000000 None"
  have l: "oui_list ''default'' ?w = (Inr ?d, ?w)"
    by (subst oui_list_fresh
          [where c = "\<lparr>key = ''configlet_oui.json'', dateTimeInLongFormat = 1700000000000,
                      config = json_dumps ?d\<rparr>"])
       (simp_all add: example_world_def example_cache_def OUI_CONFIGLET_def json_example2)
  have h: "netaddr_EUI ''00:1B:21:AA:BB:CC'' = Inr (EUI 48 0x001B21AABBCC)
      \<and> version (EUI 48 0x001B21AABBCC) = 48 \<and> oui_list ''default'' ?w = (Inr ?d, ?w)"
    using eui_example l by simp
  from longest_prefix_first [of "''00:1B:21:AA:BB:CC''" "EUI 48 0x001B21AABBCC" "''default''" ?w ?d ?w,
      rule_format, OF h, THEN conjunct2, THEN conjunct1, rule_format, of "''Org28''"]
  show ?thesis by (simp add: example_keys)
qed

text \<open>
  C3, as amended. For every string that netaddr reads as an EUI-48 address: with
  external lookup enabled, as the module constant sets it, and no binding for any of
  the three masked prefixes, the organisation is the literal \<^verbatim>\<open>Unknown\<close>, whether or
  not the static registry has the prefix; the static registry is read only when
  external lookup is disabled, and then the organisation is \<^verbatim>\<open>Unknown\<close> exactly when
  the prefix is not registered. The \<^verbatim>\<open>else\<close> of line 124 belongs to the \<^verbatim>\<open>if\<close> of
  line 115, not to the loop.
\<close>

theorem static_lookup_only_when_disabled:
  "(netaddr_EUI mac_address = Inr e \<and> version e = 48 \<and> oui_list vrf w = (Inr d, w1)
      \<and> map_of d (hex_fixed 12 (val e AND OUI36_MASK)) = None
      \<and> map_of d (hex_fixed 12 (val e AND OUI28_MASK)) = None
      \<and> map_of d (hex_fixed 12 (val e AND OUI24_MASK)) = None \<longrightarrow>
      org_from_mac_with True mac_address vrf w
        = (Inr (''Unknown'' @ '', '' @ last_six (hex_fixed 12 (val e))), w1))
   \<and> (netaddr_EUI mac_address = Inr e \<and> version e = 48 \<longrightarrow>
      org_from_mac_with False mac_address vrf w
        = (Inr ((case map_of (ieee w) (drop_bit 24 (val e)) of
                   Some org \<Rightarrow> org
                 | None \<Rightarrow> ''Unknown'')
                @ '', '' @ last_six (hex_fixed 12 (val e))), w))
   \<and> org_from_mac = org_from_mac_with True"
  by (simp add: org_from_mac_def EXTERNAL_OUI_LOOKUP_def org_from_mac_external org_from_mac_static)


theorem static_lookup_only_when_disabled_witness:
  "org_from_mac_with True ''00:1B:21:AA:BB:CC'' ''default''
     (example_world (example_cache 1700000000000 []) 1700000001000000 None)
     = (Inr ''Unknown, AA:BB:CC'',
        example_world (example_cache 1700000000000 []) 1700000001000000 None)
   \<and> org_from_mac_with False ''00:1B:21:AA:BB:CC'' ''default''
     (example_world (example_cache 1700000000000 []) 1700000001000000 None)
     = (Inr ''Intel, AA:BB:CC'',
        example_world (example_cache 1700000000000 []) 1700000001000000 None)"
proof -
  let ?w = "example_world (example_cache 1700000000000 []) 1700000001000000 None"
  let ?e = "EUI 48 0x001B21AABBCC"
  have h1: "netaddr_EUI ''00:1B:21:AA:BB:CC'' = Inr ?e \<and> version ?e = 48
      \<and> oui_list ''default'' ?w = (Inr [], ?w)
      \<and> map_of [] (hex_fixed 12 (val ?e AND OUI36_MASK)) = (None :: string option)
      \<and> map_of [] (hex_fixed 12 (val ?e AND OUI28_MASK)) = (None :: string option)
      \<and> map_of [] (hex_fixed 12 (val ?e AND OUI24_MASK)) = (None :: string option)"
    using eui_example oui_list_example_empty by simp
  have h2: "netaddr_EUI ''00:1B:21:AA:BB:CC'' = Inr ?e \<and> version ?e = 48"
    using eui_example by simp
  note t = static_lookup_only_when_disabled
             [of "''00:1B:21:AA:BB:CC''" ?e "''default''" ?w "[]" ?w]
  have r: "drop_bit 24 (0x001B21AABBCC :: nat) = 0x001B21"
    by (simp add: drop_bit_eq_div)
  from t [THEN conjunct1, rule_format, OF h1] t [THEN conjunct2, THEN conjunct1, rule_format, OF h2]
  show ?thesis by (simp add: example_keys example_world_def r)
qed


text \<open>The claim as stated fails: with external lookup enabled, an address whose prefix
  the static registry has, and which the cache does not bind, resolves to
  \<^verbatim>\<open>Unknown\<close>.\<close>

theorem registered_prefix_unknown_counterexample:
  "EXTERNAL_OUI_LOOKUP
   \<and> oui_registration_org
        (ieee (example_world (example_cache 1700000000000 []) 1700000001000000 None))
        (EUI 48 0x001B21AABBCC) = Inr ''Intel''
   \<and> org_from_mac ''00:1B:21:AA:BB:CC'' ''default''
        (example_world (example_cache 1700000000000 []) 1700000001000000 None)
      = (Inr ''Unknown, AA:BB:CC'',
         example_world (example_cache 1700000000000 []) 1700000001000000 None)"
proof -
  let ?w = "example_world (example_cache 1700000000000 []) 1700000001000000 None"
  have r: "drop_bit 24 (0x001B21AABBCC :: nat) = 0x001B21"
    by (simp add: drop_bit_eq_div)
  have 1: "oui_registration_org (ieee ?w) (EUI 48 0x001B21AABBCC) = Inr ''Intel''"
    by (simp add: oui_registration_org_def example_world_def r)
  have "org_from_mac ''00:1B:21:AA:BB:CC'' ''default'' ?w
      = (Inr ''Unknown, AA:BB:CC'', ?w)"
    unfolding org_from_mac_def EXTERNAL_OUI_LOOKUP_def
    by (subst org_from_mac_external [OF eui_example _ oui_list_example_empty])
       (simp_all add: example_keys)
  with 1 show ?thesis by (simp add: EXTERNAL_OUI_LOOKUP_def)
qed


subsection \<open>Invalid addresses\<close>

lemma step_invalid_mac:
  assumes "\<not> is_mac mac_address"
    "startswith (name intf) ''Ethernet'' \<or> startswith (name intf) ''Management''"
    "map_of rc (''interface '' @ name intf) = Some cfg" "comments cfg = Some cs"
    "''no auto-description'' \<notin> set cs" "\<forall>nb. lldp_neighbors intf \<noteq> Some [nb]"
    "mac_address_table intf = Some [entry]" "macAddress entry = Some mac_address"
  shows "auto_description_step rc vrf intf st = (Some AddrFormatError, st)"
proof -
  have "interface_description vrf intf st = (Inl AddrFormatError, st)"
    using assms(1,6,7,8)
    by (auto simp: interface_description_def org_from_mac_def org_from_mac_invalid
        split: option.splits list.splits)
  with assms(2-5) show ?thesis by (auto simp: auto_description_step_def)
qed

lemma main_example:
  "main (example_device mac) w =
     auto_description_loop [(''interface Ethernet1'', \<lparr>comments = Some [], cmds = Some []\<rparr>)]
       ''default''
       [\<lparr>name = ''Ethernet1'', interfaceMembership = None, lldp_neighbors = None,
         mac_address_table = Some [\<lparr>interface_name = Some ''Ethernet1'', macAddress = Some mac\<rparr>]\<rparr>]
       \<lparr>port_channels = {}, printed = [], wld = w\<rparr>"
  by (simp add: main_def example_device_def auto_description_def vrf_from_terminattr_def
      VRF_DEFAULT_def)

lemma not_mac_examples: "\<not> is_mac ''not-a-mac''" "\<not> is_mac ''AA:BB:CC:DD:EE''"
  by (simp_all add: is_mac_def netaddr_eval)

lemma main_example_invalid:
  assumes "\<not> is_mac mac"
  shows "main (example_device mac) w
    = (Some AddrFormatError, \<lparr>port_channels = {}, printed = [], wld = w\<rparr>)"
proof -
  have "auto_description_step [(''interface Ethernet1'', \<lparr>comments = Some [], cmds = Some []\<rparr>)]
       ''default''
       \<lparr>name = ''Ethernet1'', interfaceMembership = None, lldp_neighbors = None,
         mac_address_table = Some [\<lparr>interface_name = Some ''Ethernet1'', macAddress = Some mac\<rparr>]\<rparr>
       \<lparr>port_channels = {}, printed = [], wld = w\<rparr>
     = (Some AddrFormatError, \<lparr>port_channels = {}, printed = [], wld = w\<rparr>)"
    by (rule step_invalid_mac
          [OF assms, where cfg = "\<lparr>comments = Some [], cmds = Some []\<rparr>" and cs = "[]"
             and entry = "\<lparr>interface_name = Some ''Ethernet1'', macAddress = Some mac\<rparr>"])
       (simp_all add: startswith_def)
  then show ?thesis by (simp add: main_example)
qed

lemma main_example_undecodable:
  "main (example_device ''00:1B:21:AA:BB:CC'')
     (example_world [(''oui.json'', \<lparr>key = ''configlet_oui.json'',
          dateTimeInLongFormat = 1700000000000, config = ''oops''\<rparr>)] 1700000001000000 None)
   = (Some ValueError, \<lparr>port_channels = {}, printed = [],
        wld = example_world [(''oui.json'', \<lparr>key = ''configlet_oui.json'',
          dateTimeInLongFormat = 1700000000000, config = ''oops''\<rparr>)] 1700000001000000 None\<rparr>)"
proof -
  let ?c = "\<lparr>key = ''configlet_oui.json'', dateTimeInLongFormat = 1700000000000, config = ''oops''\<rparr>"
  let ?w = "example_world [(''oui.json'', ?c)] 1700000001000000 None"
  have "oui_list ''default'' ?w = (json_loads (config ?c), ?w)"
    by (rule oui_list_fresh) (simp_all add: example_world_def OUI_CONFIGLET_def)
  then have l: "oui_list ''default'' ?w = (Inl ValueError, ?w)"
    by (simp add: json_loads_def)
  have "org_from_mac ''00:1B:21:AA:BB:CC'' ''default'' ?w = (Inl ValueError, ?w)"
    by (simp add: org_from_mac_def EXTERNAL_OUI_LOOKUP_def org_from_mac_with_def eui_example
        resolve_org_def l)
  then show ?thesis
    by (simp add: main_example auto_description_step_def startswith_def interface_description_def)
qed


text \<open>
  C8, as amended. For every string that is not a valid MAC address \<open>org_from_mac\<close>
  raises \<open>AddrFormatError\<close> and changes nothing; the exception is not caught at the
  interface level: an interface whose single MAC table entry carries such an address
  ends the loop of \<open>auto_description\<close> with it. At the outermost boundary only
  \<open>ValueError\<close> is swallowed: a run of \<open>main\<close> that ends with \<open>ValueError\<close> ends
  the script silently, and a run that ends with \<open>AddrFormatError\<close>, which is not a
  \<open>ValueError\<close>, ends the script with that exception uncaught.
\<close>

theorem invalid_address_propagates:
  "(\<not> is_mac mac_address \<longrightarrow> org_from_mac mac_address vrf w = (Inl AddrFormatError, w))
   \<and> (\<not> is_mac mac_address
        \<and> (startswith (name intf) ''Ethernet'' \<or> startswith (name intf) ''Management'')
        \<and> map_of rc (''interface '' @ name intf) = Some cfg \<and> comments cfg = Some cs
        \<and> ''no auto-description'' \<notin> set cs \<and> (\<forall>nb. lldp_neighbors intf \<noteq> Some [nb])
        \<and> mac_address_table intf = Some [entry] \<and> macAddress entry = Some mac_address
      \<longrightarrow> auto_description_loop rc vrf (intf # intfs) st = (Some AddrFormatError, st))
   \<and> (main dev w = (Some AddrFormatError, st) \<longrightarrow> script dev w = (Some AddrFormatError, st))
   \<and> (main dev w = (Some ValueError, st) \<longrightarrow> script dev w = (None, st))"
  by (auto simp: org_from_mac_def org_from_mac_invalid step_invalid_mac script_def)

theorem invalid_address_propagates_witness:
  "org_from_mac ''not-a-mac'' ''default'' (example_world [] 0 None)
     = (Inl AddrFormatError, example_world [] 0 None)
   \<and> auto_description_loop [(''interface Ethernet1'', \<lparr>comments = Some [], cmds = Some []\<rparr>)]
       ''default''
       [\<lparr>name = ''Ethernet1'', interfaceMembership = None, lldp_neighbors = None,
         mac_address_table = Some [\<lparr>interface_name = Some ''Ethernet1'', macAddress = Some ''not-a-mac''\<rparr>]\<rparr>]
       \<lparr>port_channels = {}, printed = [], wld = example_world [] 0 None\<rparr>
     = (Some AddrFormatError, \<lparr>port_channels = {}, printed = [], wld = example_world [] 0 None\<rparr>)
   \<and> script (example_device ''not-a-mac'') (example_world [] 0 None)
     = (Some AddrFormatError, \<lparr>port_channels = {}, printed = [], wld = example_world [] 0 None\<rparr>)
   \<and> script (example_device ''00:1B:21:AA:BB:CC'')
       (example_world [(''oui.json'', \<lparr>key = ''configlet_oui.json'',
          dateTimeInLongFormat = 1700000000000, config = ''oops''\<rparr>)] 1700000001000000 None)
     = (None, \<lparr>port_channels = {}, printed = [],
        wld = example_world [(''oui.json'', \<lparr>key = ''configlet_oui.json'',
          dateTimeInLongFormat = 1700000000000, config = ''oops''\<rparr>)] 1700000001000000 None\<rparr>)"
proof -
  let ?w = "example_world [] 0 None"
  let ?rc = "[(''interface Ethernet1'', \<lparr>comments = Some [], cmds = Some []\<rparr>)]"
  let ?entry = "\<lparr>interface_name = Some ''Ethernet1'', macAddress = Some ''not-a-mac''\<rparr>"
  let ?intf = "\<lparr>name = ''Ethernet1'', interfaceMembership = None, lldp_neighbors = None,
         mac_address_table = Some [?entry]\<rparr>"
  let ?st = "\<lparr>port_channels = {}, printed = [], wld = ?w\<rparr>"
  let ?wb = "example_world [(''oui.json'', \<lparr>key = ''configlet_oui.json'',
          dateTimeInLongFormat = 1700000000000, config = ''oops''\<rparr>)] 1700000001000000 None"
  have 1: "org_from_mac ''not-a-mac'' ''default'' ?w = (Inl AddrFormatError, ?w)"
    using invalid_address_propagates [where mac_address = "''not-a-mac''" and vrf = "''default''" and w = ?w]
      not_mac_examples(1)
    by blast
  have h: "\<not> is_mac ''not-a-mac''
        \<and> (startswith (name ?intf) ''Ethernet'' \<or> startswith (name ?intf) ''Management'')
        \<and> map_of ?rc (''interface '' @ name ?intf) = Some \<lparr>comments = Some [], cmds = Some []\<rparr>
        \<and> comments \<lparr>comments = Some [], cmds = Some []\<rparr> = Some []
        \<and> ''no auto-description'' \<notin> set [] \<and> (\<forall>nb. lldp_neighbors ?intf \<noteq> Some [nb])
        \<and> mac_address_table ?intf = Some [?entry] \<and> macAddress ?entry = Some ''not-a-mac''"
    using not_mac_examples(1) by (simp add: startswith_def)
  have 2: "auto_description_loop ?rc ''default'' [?intf] ?st = (Some AddrFormatError, ?st)"
    using invalid_address_propagates
      [where mac_address = "''not-a-mac''" and intf = ?intf and rc = ?rc
         and cfg = "\<lparr>comments = Some [], cmds = Some []\<rparr>" and cs = "[]" and entry = ?entry
         and vrf = "''default''" and intfs = "[]" and st = ?st,
       THEN conjunct2, THEN conjunct1, rule_format, OF h] .
  have 3: "script (example_device ''not-a-mac'') ?w = (Some AddrFormatError, ?st)"
    using invalid_address_propagates
      [where dev = "example_device ''not-a-mac''" and w = ?w and st = ?st,
        THEN conjunct2, THEN conjunct2, THEN conjunct1]
      main_example_invalid [OF not_mac_examples(1), of ?w]
    by blast
  have 4: "script (example_device ''00:1B:21:AA:BB:CC'') ?wb
     = (None, \<lparr>port_channels = {}, printed = [], wld = ?wb\<rparr>)"
    using invalid_address_propagates
      [where dev = "example_device ''00:1B:21:AA:BB:CC''" and w = ?wb
         and st = "\<lparr>port_channels = {}, printed = [], wld = ?wb\<rparr>",
        THEN conjunct2, THEN conjunct2, THEN conjunct2]
      main_example_undecodable
    by blast
  from 1 2 3 4 show ?thesis by blast
qed


text \<open>The claim as stated fails: an invalid address that reaches the outermost
  boundary is not swallowed there.\<close>

theorem invalid_address_crash_counterexample:
  "\<not> is_mac ''AA:BB:CC:DD:EE''
   \<and> script (example_device ''AA:BB:CC:DD:EE'') (example_world [] 1700000000000000 None)
     = (Some AddrFormatError,
        \<lparr>port_channels = {}, printed = [], wld = example_world [] 1700000000000000 None\<rparr>)"
  by (simp add: script_def main_example_invalid not_mac_examples)

section \<open>Properties of the synthesiser\<close>

lemma once_inv_wld [simp]: "once_inv (st\<lparr>wld := w\<rparr>) = once_inv st"
  by (simp add: once_inv_def emitted_def)

lemma once_inv_init: "once_inv \<lparr>port_channels = {}, printed = [], wld = w\<rparr>"
  by (simp add: once_inv_def emitted_def)

lemma port_channel_step_inv:
  "once_inv st \<Longrightarrow> port_channel_step intf d st = (r, st1) \<Longrightarrow> once_inv st1"
  by (auto simp: port_channel_step_def once_inv_def emitted_def
      split: option.splits sum.splits if_splits)

lemma neighbor_description_inv:
  "once_inv st \<Longrightarrow> neighbor_description vrf intf nb st = (r, st1) \<Longrightarrow> once_inv st1"
  by (auto simp: neighbor_description_def Let_def
      split: option.splits sum.splits if_splits prod.splits
      dest: port_channel_step_inv)

lemma interface_description_inv:
  "once_inv st \<Longrightarrow> interface_description vrf intf st = (r, st1) \<Longrightarrow> once_inv st1"
  by (auto simp: interface_description_def
      split: option.splits list.splits sum.splits prod.splits
      dest: neighbor_description_inv)

lemma print_interface_inv:
  "once_inv st \<Longrightarrow> startswith n ''Ethernet'' \<or> startswith n ''Management''
     \<Longrightarrow> once_inv (st\<lparr>printed := printed st @ [(n, d)]\<rparr>)"
  by (auto simp: once_inv_def emitted_def)

lemma auto_description_step_inv:
  "once_inv st \<Longrightarrow> auto_description_step rc vrf intf st = (r, st1) \<Longrightarrow> once_inv st1"
  by (auto simp: auto_description_step_def
      split: option.splits sum.splits prod.splits if_splits
      dest: interface_description_inv intro: print_interface_inv)

lemma auto_description_loop_inv:
  "once_inv st \<Longrightarrow> auto_description_loop rc vrf intfs st = (r, st1) \<Longrightarrow> once_inv st1"
proof (induction intfs arbitrary: st)
  case Nil
  then show ?case by simp
next
  case (Cons intf intfs)
  obtain r' st' where s: "auto_description_step rc vrf intf st = (r', st')"
    by (cases "auto_description_step rc vrf intf st")
  from auto_description_step_inv [OF Cons.prems(1) s] have i: "once_inv st'" .
  show ?case
  proof (cases r')
    case None
    with Cons.prems(2) s have "auto_description_loop rc vrf intfs st' = (r, st1)" by simp
    from Cons.IH [OF i this] show ?thesis .
  next
    case (Some e)
    with Cons.prems(2) s have "st1 = st'" by simp
    with i show ?thesis by simp
  qed
qed

lemma auto_description_inv: "auto_description ifs rc w = (r, st) \<Longrightarrow> once_inv st"
  by (auto simp: auto_description_def Let_def once_inv_init
      split: sum.splits dest: auto_description_loop_inv [OF once_inv_init])

lemma sort_example:
  "sort_key name [example_member ''Ethernet2'' ''Ethernet4'', example_member ''Ethernet1'' ''Ethernet3'']
     = [example_member ''Ethernet1'' ''Ethernet3'', example_member ''Ethernet2'' ''Ethernet4'']"
  by (simp add: example_member_def less_eq_char_def less_char_def)

lemma not_mac_host: "\<not> is_mac ''host1.example.com''"
  by (simp add: is_mac_def netaddr_eval)

lemma member_step_first:
  "auto_description_step example_config ''default'' (example_member ''Ethernet1'' ''Ethernet3'')
     \<lparr>port_channels = {}, printed = [], wld = w\<rparr>
   = (None, \<lparr>port_channels = {''Port-Channel1''},
        printed = [(''Port-Channel1'', ''host1''), (''Ethernet1'', ''host1, Ethernet3'')], wld = w\<rparr>)"
  by (simp add: auto_description_step_def example_config_def example_member_def startswith_def
      interface_description_def neighbor_description_def not_mac_host neighbor_interface_id_def
      port_channel_step_def subscript_def)

lemma member_step_second:
  "auto_description_step example_config ''default'' (example_member ''Ethernet2'' ''Ethernet4'')
     \<lparr>port_channels = {''Port-Channel1''},
        printed = [(''Port-Channel1'', ''host1''), (''Ethernet1'', ''host1, Ethernet3'')], wld = w\<rparr>
   = (None, \<lparr>port_channels = {''Port-Channel1''},
        printed = [(''Port-Channel1'', ''host1''), (''Ethernet1'', ''host1, Ethernet3''),
                   (''Ethernet2'', ''host1, Ethernet4'')], wld = w\<rparr>)"
  by (simp add: auto_description_step_def example_config_def example_member_def startswith_def
      interface_description_def neighbor_description_def not_mac_host neighbor_interface_id_def
      port_channel_step_def subscript_def)

lemma members_run:
  "auto_description
     [(''Ethernet2'', example_member ''Ethernet2'' ''Ethernet4''),
      (''Ethernet1'', example_member ''Ethernet1'' ''Ethernet3'')] example_config w
   = (None, \<lparr>port_channels = {''Port-Channel1''},
        printed = [(''Port-Channel1'', ''host1''), (''Ethernet1'', ''host1, Ethernet3''),
                   (''Ethernet2'', ''host1, Ethernet4'')], wld = w\<rparr>)"
proof -
  have v: "vrf_from_terminattr example_config = Inr ''default''"
    by (simp add: vrf_from_terminattr_def example_config_def VRF_DEFAULT_def)
  show ?thesis
    by (simp add: auto_description_def v sort_example member_step_first member_step_second
        del: sort_key_simps)
qed

text \<open>
  C5. In every run of \<open>auto_description\<close>, whether it ends normally or with an
  exception, each port-channel has at most one printed description block, even when
  several of its members each have a single LLDP neighbour with a host name: the
  block is printed only while the port-channel is not in the set \<open>port_channels\<close>,
  and it is put there at once. A port-channel is a name that the loop does not take as
  an interface of its own, that is, one that starts with neither \<^verbatim>\<open>Ethernet\<close> nor
  \<^verbatim>\<open>Management\<close>.
\<close>

theorem port_channel_described_once:
  "auto_description ifs rc w = (r, st)
     \<and> \<not> startswith p ''Ethernet'' \<and> \<not> startswith p ''Management''
   \<longrightarrow> length (filter (\<lambda>b. fst b = p) (printed st)) \<le> 1"
  using auto_description_inv [of ifs rc w r st]
  by (auto simp: once_inv_def emitted_def)

theorem port_channel_described_once_witness:
  "printed (snd (auto_description
     [(''Ethernet2'', example_member ''Ethernet2'' ''Ethernet4''),
      (''Ethernet1'', example_member ''Ethernet1'' ''Ethernet3'')] example_config
     (example_world [] 0 None)))
   = [(''Port-Channel1'', ''host1''), (''Ethernet1'', ''host1, Ethernet3''),
      (''Ethernet2'', ''host1, Ethernet4'')]
   \<and> length (filter (\<lambda>b. fst b = ''Port-Channel1'')
       (printed (snd (auto_description
         [(''Ethernet2'', example_member ''Ethernet2'' ''Ethernet4''),
          (''Ethernet1'', example_member ''Ethernet1'' ''Ethernet3'')] example_config
         (example_world [] 0 None))))) \<le> 1"
proof -
  let ?ifs = "[(''Ethernet2'', example_member ''Ethernet2'' ''Ethernet4''),
      (''Ethernet1'', example_member ''Ethernet1'' ''Ethernet3'')]"
  let ?w = "example_world [] 0 None"
  let ?st = "\<lparr>port_channels = {''Port-Channel1''},
        printed = [(''Port-Channel1'', ''host1''), (''Ethernet1'', ''host1, Ethernet3''),
                   (''Ethernet2'', ''host1, Ethernet4'')], wld = ?w\<rparr>"
  have h: "auto_description ?ifs example_config ?w = (None, ?st)
     \<and> \<not> startswith ''Port-Channel1'' ''Ethernet'' \<and> \<not> startswith ''Port-Channel1'' ''Management''"
    by (simp add: members_run startswith_def)
  from port_channel_described_once
         [where ifs = ?ifs and rc = example_config and w = ?w and r = None and st = ?st
            and p = "''Port-Channel1''", rule_format, OF h]
  show ?thesis by (simp add: members_run)
qed

section \<open>Properties of the cache keys\<close>

subsection \<open>Upper-case hexadecimal digits\<close>

lemma upper_hex_chars: "list_all is_upper_hex ''0123456789ABCDEF''"
  by (simp add: is_upper_hex_def)

lemma upper_hex_char_is: "is_upper_hex (upper_hex_char d)"
proof -
  have "d mod 16 < length ''0123456789ABCDEF''" by simp
  with upper_hex_chars show ?thesis
    unfolding upper_hex_char_def list_all_length by blast
qed

lemma hex_fixed_shape: "length (hex_fixed n v) = n \<and> list_all is_upper_hex (hex_fixed n v)"
  by (induction n arbitrary: v) (simp_all add: upper_hex_char_is)

lemma upper_hex_cases:
  assumes "is_upper_hex c"
  shows "c \<in> set ''0123456789ABCDEF''"
proof -
  let ?n = "of_char c :: nat"
  from assms have "(48 \<le> ?n \<and> ?n \<le> 57) \<or> (65 \<le> ?n \<and> ?n \<le> 70)"
    by (simp add: is_upper_hex_def Let_def)
  then have "?n \<in> {48, 49, 50, 51, 52, 53, 54, 55, 56, 57, 65, 66, 67, 68, 69, 70}"
    unfolding insert_iff empty_iff by presburger
  then have "?n \<in> of_char ` set ''0123456789ABCDEF''" by simp
  then obtain c' where "c' \<in> set ''0123456789ABCDEF''" "?n = of_char c'" by blast
  then show ?thesis by simp
qed

lemma upper_hex_char_value: "is_upper_hex c \<Longrightarrow> upper_hex_char (hex_value c) = c"
  by (drule upper_hex_cases) (auto simp: upper_hex_char_def hex_value_def)

lemma upper_hex_not_special:
  "is_upper_hex c \<Longrightarrow> c \<noteq> CHR '':'' \<and> c \<noteq> CHR ''-'' \<and> c \<noteq> CHR ''.'' \<and> c \<noteq> CHR ''+''
     \<and> c \<noteq> CHR 0x0A \<and> \<not> is_space c \<and> is_hex c"
  by (drule upper_hex_cases) (auto simp: is_space_def is_hex_def)

lemma hex_number_snoc: "hex_number (cs @ [c]) = 16 * hex_number cs + hex_value c"
  by (simp add: hex_number_def)

lemma hex_fixed_hex_number:
  "list_all is_upper_hex cs \<Longrightarrow> hex_fixed (length cs) (hex_number cs) = cs"
proof (induction cs rule: rev_induct)
  case Nil
  then show ?case by simp
next
  case (snoc c cs)
  have v: "hex_value c < 16" by (simp add: hex_value_def Let_def) auto
  from snoc.prems have c: "is_upper_hex c" and cs: "list_all is_upper_hex cs" by simp_all
  from v have "(16 * hex_number cs + hex_value c) div 16 = hex_number cs"
    and "(16 * hex_number cs + hex_value c) mod 16 = hex_value c" by simp_all
  with snoc.IH [OF cs] c show ?case
    by (simp add: hex_number_snoc upper_hex_char_value)
qed

subsection \<open>Prefixes of three and of six octets\<close>

lemma eui_six_octets:
  assumes "list_all is_upper_hex [a, b, c, d, e, f, g, h, i, j, k, l]"
  shows "netaddr_EUI [a, b, CHR '':'', c, d, CHR '':'', e, f, CHR '':'', g, h, CHR '':'', i, j, CHR '':'', k, l]
    = Inr (EUI 48 (hex_number [a, b, c, d, e, f, g, h, i, j, k, l]))"
proof -
  let ?s = "[a, b, CHR '':'', c, d, CHR '':'', e, f, CHR '':'', g, h, CHR '':'', i, j, CHR '':'', k, l]"
  from assms have n: "a \<noteq> CHR '':''" "b \<noteq> CHR '':''" "c \<noteq> CHR '':''" "d \<noteq> CHR '':''"
    "e \<noteq> CHR '':''" "f \<noteq> CHR '':''" "g \<noteq> CHR '':''" "h \<noteq> CHR '':''" "i \<noteq> CHR '':''"
    "j \<noteq> CHR '':''" "k \<noteq> CHR '':''" "l \<noteq> CHR '':''" "l \<noteq> CHR 0x0A"
    and x: "is_hex a" "is_hex b" "is_hex c" "is_hex d" "is_hex e" "is_hex f" "is_hex g" "is_hex h"
    "is_hex i" "is_hex j" "is_hex k" "is_hex l"
    by (simp_all add: upper_hex_not_special)
  have sp: "str_split (CHR '':'') ?s = [[a, b], [c, d], [e, f], [g, h], [i, j], [k, l]]"
    using n by simp
  have ch: "chomp ?s = ?s"
    using n(13) by (simp add: chomp_def)
  have m: "match_words (CHR '':'') 6 1 2 (chomp ?s) = Some [[a, b], [c, d], [e, f], [g, h], [i, j], [k, l]]"
    using x by (simp add: match_words_def ch sp del: str_split.simps)
  have v: "words_to_int 2 [[a, b], [c, d], [e, f], [g, h], [i, j], [k, l]]
      = hex_number [a, b, c, d, e, f, g, h, i, j, k, l]"
    by (simp add: words_to_int_def hex_number_def)
  have "eui48_str_to_int ?s = Some (hex_number [a, b, c, d, e, f, g, h, i, j, k, l])"
    unfolding eui48_str_to_int_def Let_def m by (simp add: v)
  then show ?thesis
    by (simp add: netaddr_EUI_def)
qed

lemma oui_key_six:
  assumes "list_all is_upper_hex [a, b, c, d, e, f, g, h, i, j, k, l]"
  shows "oui_key [a, b, CHR '':'', c, d, CHR '':'', e, f, CHR '':'', g, h, CHR '':'', i, j, CHR '':'', k, l]
    = Inr [a, b, c, d, e, f, g, h, i, j, k, l]"
proof -
  let ?cs = "[a, b, c, d, e, f, g, h, i, j, k, l]"
  have "hex_number ?cs < 16 ^ length ?cs" by (rule hex_number_less)
  then have lt: "hex_number ?cs < 2 ^ 48" by simp
  have l12: "length ?cs = 12" by simp
  have r: "hex_fixed 12 (hex_number ?cs) = ?cs"
    using hex_fixed_hex_number [OF assms] unfolding l12 .
  show ?thesis
    using lt by (simp add: oui_key_def eui_six_octets [OF assms] str_mac_bare_def r
        del: hex_fixed.simps)
qed

lemma oui_key_three:
  assumes "list_all is_upper_hex [a, b, c, d, e, f]"
  shows "oui_key [a, b, CHR '':'', c, d, CHR '':'', e, f] = Inr ([a, b, c, d, e, f] @ ''000000'')"
proof -
  have z: "list_all is_upper_hex [a, b, c, d, e, f, CHR ''0'', CHR ''0'', CHR ''0'', CHR ''0'', CHR ''0'', CHR ''0'']"
    using assms by (simp add: is_upper_hex_def)
  from oui_key_six [OF z] show ?thesis
    by (simp add: oui_key_def)
qed

subsection \<open>The keys of a pass\<close>

lemma oui_key_shape: "oui_key oui = Inr k \<Longrightarrow> length k = 12 \<and> list_all is_upper_hex k"
  using hex_fixed_shape [of 12]
  by (auto simp: oui_key_def str_mac_bare_def split: sum.splits if_splits)

lemma merge_binding_keys: "fst ` set (merge_binding d k org) \<subseteq> insert k (fst ` set d)"
  by (auto simp: merge_binding_def dom_update)

lemma download_loop_keys:
  "download_loop ms d = Inr d' \<Longrightarrow> \<forall>k\<in>fst ` set d. length k = 12 \<and> list_all is_upper_hex k
     \<Longrightarrow> \<forall>k\<in>fst ` set d'. length k = 12 \<and> list_all is_upper_hex k"
proof (induction ms arbitrary: d)
  case Nil
  then show ?case by simp
next
  case (Cons m ms)
  obtain oui org where m: "m = (oui, org)" by (cases m)
  from Cons.prems(1) m obtain k where k: "oui_key oui = Inr k"
    and rest: "download_loop ms (merge_binding d k org) = Inr d'"
    by (auto split: sum.splits)
  have "\<forall>k'\<in>fst ` set (merge_binding d k org). length k' = 12 \<and> list_all is_upper_hex k'"
    using merge_binding_keys [of d k org] oui_key_shape [OF k] Cons.prems(2) by blast
  from Cons.IH [OF rest this] show ?case .
qed

lemma download_keys:
  "download vrf w = (Inr d, w1) \<Longrightarrow> \<forall>k\<in>fst ` set d. length k = 12 \<and> list_all is_upper_hex k"
  by (auto simp: download_def split: prod.splits sum.splits option.splits if_splits
      dest!: download_loop_keys)

lemma download_loop_all_keys:
  "download_loop ms d = Inr d' \<Longrightarrow> \<forall>m\<in>set ms. \<exists>k. oui_key (fst m) = Inr k"
  by (induction ms arbitrary: d) (fastforce split: sum.splits)+

lemma str_split_no_sep: "sep \<notin> set s \<Longrightarrow> str_split sep s = [s]"
  by (induction s) auto




lemma download_world:
  "snd (download vrf w) = w\<lparr>trace := trace w @ [RunCmd (curl_command OUI_LIST vrf)]\<rparr>"
  by (simp add: download_def curl_def Let_def split: option.splits list.splits)

lemma match_line_five:
  assumes "list_all is_upper_hex [a, b, c, d, e, f, g, h, i, j]"
    and "org \<noteq> []" "list_all (\<lambda>c. \<not> is_space c) org"
  shows "match_line (a # b # CHR '':'' # c # d # CHR '':'' # e # f # CHR '':'' # g # h # CHR '':'' # i # j
            # CHR 0x09 # org) nxt
    = Some ([a, b, CHR '':'', c, d, CHR '':'', e, f, CHR '':'', g, h, CHR '':'', i, j], org, False)"
proof -
  have t: "takeWhile (\<lambda>c. \<not> is_space c) org = org"
    using assms(3) by (simp add: list_all_iff)
  have o: "match_oui (a # b # CHR '':'' # c # d # CHR '':'' # e # f # CHR '':'' # g # h # CHR '':'' # i # j
            # CHR 0x09 # org)
      = Some ([a, b, CHR '':'', c, d, CHR '':'', e, f, CHR '':'', g, h, CHR '':'', i, j], CHR 0x09 # org)"
    using assms(1) by (simp add: match_oui_def octet_groups_numeral)
  have s: "is_space (CHR 0x09)" by (simp add: is_space_def)
  show ?thesis
    using assms(2) by (simp add: match_line_def o skip_bits_def t s Let_def)
qed

lemma finditer_five:
  assumes "list_all is_upper_hex [a, b, c, d, e, f, g, h, i, j]"
    and "org \<noteq> []" "list_all (\<lambda>c. \<not> is_space c) org"
  shows "finditer (a # b # CHR '':'' # c # d # CHR '':'' # e # f # CHR '':'' # g # h # CHR '':'' # i # j
            # CHR 0x09 # org)
    = [([a, b, CHR '':'', c, d, CHR '':'', e, f, CHR '':'', g, h, CHR '':'', i, j], org)]"
proof -
  let ?l = "a # b # CHR '':'' # c # d # CHR '':'' # e # f # CHR '':'' # g # h # CHR '':'' # i # j # CHR 0x09 # org"
  have "CHR 0x0A \<notin> set org"
    using assms(3) by (auto simp: list_all_iff is_space_def)
  moreover have "\<forall>x\<in>set [a, b, c, d, e, f, g, h, i, j]. x \<noteq> CHR 0x0A"
    using assms(1) by (auto simp: upper_hex_not_special)
  ultimately have "CHR 0x0A \<notin> set ?l" by auto
  then have "str_split (CHR 0x0A) ?l = [?l]" by (rule str_split_no_sep)
  then show ?thesis
    by (simp add: finditer_def match_line_five [OF assms])
qed


lemma merge_binding_stores: "k \<in> fst ` set (merge_binding d k org)"
proof -
  have "map_of (merge_binding d k org) k \<noteq> None"
    by (auto simp: merge_binding_def update_conv')
  then show ?thesis
    by (simp add: map_of_eq_None_iff)
qed
lemma merge_binding_grows: "fst ` set d \<subseteq> fst ` set (merge_binding d k org)"
  by (auto simp: merge_binding_def dom_update)

lemma download_loop_grows:
  "download_loop ms d = Inr d' \<Longrightarrow> k \<in> fst ` set d \<Longrightarrow> k \<in> fst ` set d'"
proof (induction ms arbitrary: d)
  case Nil
  then show ?case by simp
next
  case (Cons m ms)
  obtain oui org where m: "m = (oui, org)" by (cases m)
  from Cons.prems(1) m obtain k' where k': "oui_key oui = Inr k'"
    and rest: "download_loop ms (merge_binding d k' org) = Inr d'"
    by (auto split: sum.splits)
  have "k \<in> fst ` set (merge_binding d k' org)"
    using merge_binding_grows [of d k' org] Cons.prems(2) by blast
  from Cons.IH [OF rest this] show ?case .
qed

lemma download_loop_stores:
  "download_loop ms d = Inr d' \<Longrightarrow> (oui, org) \<in> set ms
     \<Longrightarrow> \<exists>k. oui_key oui = Inr k \<and> k \<in> fst ` set d'"
proof (induction ms arbitrary: d)
  case Nil
  then show ?case by simp
next
  case (Cons m ms)
  obtain oui' org' where m: "m = (oui', org')" by (cases m)
  from Cons.prems(1) m obtain k' where k': "oui_key oui' = Inr k'"
    and rest: "download_loop ms (merge_binding d k' org') = Inr d'"
    by (auto split: sum.splits)
  from Cons.prems(2) m consider "oui = oui'" | "(oui, org) \<in> set ms" by auto
  then show ?case
  proof cases
    case 1
    have "k' \<in> fst ` set (merge_binding d k' org')" by (rule merge_binding_stores)
    then have "k' \<in> fst ` set d'" by (rule download_loop_grows [OF rest])
    with k' 1 show ?thesis by simp
  next
    case 2
    from Cons.IH [OF rest 2] show ?thesis .
  qed
qed
lemma download_response:
  "curl_messages w = Some (response # others) \<Longrightarrow> response \<noteq> [] \<Longrightarrow>
     download vrf w = (download_loop (finditer response) [],
                       w\<lparr>trace := trace w @ [RunCmd (curl_command OUI_LIST vrf)]\<rparr>)"
  by (simp add: download_def curl_def Let_def)


lemma json_dumps_not_empty: "json_dumps d \<noteq> []"
  by (simp add: json_dumps_def)

lemma oui_list_add:
  assumes "cvp_up w" "map_of (cvp w) OUI_CONFIGLET = None"
    and "download vrf w = (Inr d, w1)"
  shows "oui_list vrf w =
    (json_loads (json_dumps d),
     w\<lparr>trace := trace w @ [RunCmd (curl_command OUI_LIST vrf), AddConfiglet OUI_CONFIGLET (json_dumps d)],
       cvp := AList.update OUI_CONFIGLET
                \<lparr>key = ''configlet_'' @ OUI_CONFIGLET, dateTimeInLongFormat = clock w div 1000,
                 config = json_dumps d\<rparr> (cvp w)\<rparr>)"
proof -
  have w1: "w1 = w\<lparr>trace := trace w @ [RunCmd (curl_command OUI_LIST vrf)]\<rparr>"
    using download_world [of vrf w] assms(3) by simp
  show ?thesis
    using assms
    by (simp add: oui_list_def configlet_exists_def update_needed_def truthy_def refresh_def
        Let_def json_dumps_not_empty configlet_add_def store_add_def configlet_get_def
        update_conv' w1)
qed



subsection \<open>The example documents\<close>

lemma finditer_examples:
  "finditer example_registry = [(''00:00:0C'', ''Cisco''), (''00:1B:C5:00:0F:FF'', ''Converge'')]"
  "finditer example_broken_registry
     = [(''00:00:0C'', ''Cisco''), (''AA:BB:CC:DD:EE'', ''Broken''), (''00:1B:21'', ''Intel'')]"
  "finditer example_short_registry = [(''00:1B:C5:00'', ''Four'')]"
  by (simp_all add: example_registry_def example_broken_registry_def example_short_registry_def
      regex_eval is_space_def is_digit_def Let_def)

lemma oui_key_examples:
  "oui_key ''00:1B:C5:00:0F:FF'' = Inr ''001BC5000FFF''"
  "oui_key ''00:1B:C5:00'' = Inr ''001B00C50000''"
  "oui_key ''00:1B:21'' = Inr ''001B21000000''"
  "oui_key ''AA:BB:CC:DD:EE'' = Inl AddrFormatError"
  by (simp_all add: oui_key_def netaddr_eval)

lemma json_examples:
  "json_dumps [(''00000C000000'', ''Cisco''), (''001BC5000FFF'', ''Converge'')]
     = [CHR ''{'', CHR 0x22] @ ''00000C000000'' @ [CHR 0x22] @ '': '' @ [CHR 0x22] @ ''Cisco'' @ [CHR 0x22]
       @ '', '' @ [CHR 0x22] @ ''001BC5000FFF'' @ [CHR 0x22] @ '': '' @ [CHR 0x22] @ ''Converge''
       @ [CHR 0x22, CHR ''}'']"
  "json_loads (json_dumps [(''00000C000000'', ''Cisco''), (''001BC5000FFF'', ''Converge'')])
     = Inr [(''00000C000000'', ''Cisco''), (''001BC5000FFF'', ''Converge'')]"
  "json_dumps [(''001B00C50000'', ''Four'')]
     = [CHR ''{'', CHR 0x22] @ ''001B00C50000'' @ [CHR 0x22] @ '': '' @ [CHR 0x22] @ ''Four''
       @ [CHR 0x22, CHR ''}'']"
  "json_loads (json_dumps [(''001B00C50000'', ''Four'')]) = Inr [(''001B00C50000'', ''Four'')]"
  by (simp_all add: json_dumps_def json_string_def json_escape_def json_loads_def)

subsection \<open>The shape of the keys\<close>

text \<open>
  C6, as amended. Every key that a refresh stores into the mapping and returns is a
  full-width MAC string in netaddr's bare format: twelve upper-case hexadecimal digits
  and no separator, so it has no colon. Every prefix matched in a pass that ends is
  stored under the key that lines 83 to 88 make of it. A prefix of exactly three
  octets (24 bits) is zero-extended to six octets before storing: its key is its six
  digits followed by six zeros. A prefix of six octets is stored under its twelve
  digits as the line writes them: the bits that a length of \<^verbatim>\<open>/28\<close> or \<^verbatim>\<open>/36\<close> leaves
  non-significant are not changed.
\<close>

theorem cache_keys_bare:
  "(download vrf w = (Inr db, w1) \<longrightarrow>
      (\<forall>key\<in>fst ` set db. length key = 12 \<and> list_all is_upper_hex key \<and> CHR '':'' \<notin> set key))
   \<and> (download_loop ms d0 = Inr d1 \<and> (oui, org) \<in> set ms \<longrightarrow>
        (\<exists>key. oui_key oui = Inr key \<and> key \<in> fst ` set d1))
   \<and> (list_all is_upper_hex [a, b, c, d, e, f] \<longrightarrow>
        oui_key [a, b, CHR '':'', c, d, CHR '':'', e, f]
          = Inr [a, b, c, d, e, f, CHR ''0'', CHR ''0'', CHR ''0'', CHR ''0'', CHR ''0'', CHR ''0''])
   \<and> (list_all is_upper_hex [a, b, c, d, e, f, g, h, i, j, k, l] \<longrightarrow>
        oui_key [a, b, CHR '':'', c, d, CHR '':'', e, f, CHR '':'', g, h, CHR '':'', i, j, CHR '':'', k, l]
          = Inr [a, b, c, d, e, f, g, h, i, j, k, l])"
proof (intro conjI impI ballI)
  fix key
  assume dl: "download vrf w = (Inr db, w1)" and key: "key \<in> fst ` set db"
  from download_keys [OF dl] key have s: "length key = 12 \<and> list_all is_upper_hex key"
    by blast
  then show "length key = 12" and "list_all is_upper_hex key" by simp_all
  from s show "CHR '':'' \<notin> set key"
    using upper_hex_not_special [of "CHR '':''"] by (auto simp: list_all_iff)
next
  assume "download_loop ms d0 = Inr d1 \<and> (oui, org) \<in> set ms"
  then show "\<exists>key. oui_key oui = Inr key \<and> key \<in> fst ` set d1"
    using download_loop_stores by blast
next
  assume "list_all is_upper_hex [a, b, c, d, e, f]"
  from oui_key_three [OF this]
  show "oui_key [a, b, CHR '':'', c, d, CHR '':'', e, f]
          = Inr [a, b, c, d, e, f, CHR ''0'', CHR ''0'', CHR ''0'', CHR ''0'', CHR ''0'', CHR ''0'']"
    by simp
next
  assume "list_all is_upper_hex [a, b, c, d, e, f, g, h, i, j, k, l]"
  then show "oui_key [a, b, CHR '':'', c, d, CHR '':'', e, f, CHR '':'', g, h, CHR '':'', i, j, CHR '':'', k, l]
          = Inr [a, b, c, d, e, f, g, h, i, j, k, l]"
    by (rule oui_key_six)
qed

theorem cache_keys_bare_witness:
  "download ''default'' (example_world [] 1700000000000000 (Some [example_registry]))
     = (Inr [(''00000C000000'', ''Cisco''), (''001BC5000FFF'', ''Converge'')],
        (example_world [] 1700000000000000 (Some [example_registry]))
          \<lparr>trace := [RunCmd (curl_command OUI_LIST ''default'')]\<rparr>)
   \<and> length ''00000C000000'' = 12 \<and> list_all is_upper_hex ''00000C000000''
   \<and> CHR '':'' \<notin> set ''00000C000000''
   \<and> length ''001BC5000FFF'' = 12 \<and> list_all is_upper_hex ''001BC5000FFF''
   \<and> CHR '':'' \<notin> set ''001BC5000FFF''
   \<and> (\<exists>key. oui_key ''00:00:0C'' = Inr key
         \<and> key \<in> fst ` set [(''00000C000000'', ''Cisco''), (''001BC5000FFF'', ''Converge'')])
   \<and> oui_key ''00:00:0C'' = Inr ''00000C000000''
   \<and> oui_key ''00:1B:C5:00:0F:FF'' = Inr ''001BC5000FFF''"
proof -
  let ?w = "example_world [] 1700000000000000 (Some [example_registry])"
  let ?db = "[(''00000C000000'', ''Cisco''), (''001BC5000FFF'', ''Converge'')]"
  let ?ms = "[(''00:00:0C'', ''Cisco''), (''00:1B:C5:00:0F:FF'', ''Converge'')]"
  have loop: "download_loop ?ms [] = Inr ?db"
    by (simp add: oui_key_3 oui_key_examples merge_binding_def)
  have ne: "example_registry \<noteq> []" by (simp add: example_registry_def)
  have dl: "download ''default'' ?w
      = (Inr ?db, ?w\<lparr>trace := [RunCmd (curl_command OUI_LIST ''default'')]\<rparr>)"
    using download_response [where w = ?w and response = example_registry and others = "[]"
        and vrf = "''default''"] ne
    by (simp add: example_world_def finditer_examples oui_key_3 oui_key_examples merge_binding_def)
  note r = cache_keys_bare [where vrf = "''default''" and w = ?w and db = ?db
      and ?w1.0 = "?w\<lparr>trace := [RunCmd (curl_command OUI_LIST ''default'')]\<rparr>"
      and ms = ?ms and ?d0.0 = "[]" and ?d1.0 = ?db and oui = "''00:00:0C''" and org = "''Cisco''"
      and a = "CHR ''0''" and b = "CHR ''0''" and c = "CHR ''0''" and d = "CHR ''0''"
      and e = "CHR ''0''" and f = "CHR ''C''"]
  from r [THEN conjunct1] dl
  have 1: "length ''00000C000000'' = 12 \<and> list_all is_upper_hex ''00000C000000''
      \<and> CHR '':'' \<notin> set ''00000C000000''
      \<and> length ''001BC5000FFF'' = 12 \<and> list_all is_upper_hex ''001BC5000FFF''
      \<and> CHR '':'' \<notin> set ''001BC5000FFF''"
    by simp
  from r [THEN conjunct2, THEN conjunct1] loop
  have 2: "\<exists>key. oui_key ''00:00:0C'' = Inr key \<and> key \<in> fst ` set ?db"
    by simp
  from r [THEN conjunct2, THEN conjunct2, THEN conjunct1]
  have 3: "oui_key ''00:00:0C'' = Inr ''00000C000000''"
    by (simp add: is_upper_hex_def)
  have 4: "oui_key ''00:1B:C5:00:0F:FF'' = Inr ''001BC5000FFF''"
    using cache_keys_bare [where a = "CHR ''0''" and b = "CHR ''0''" and c = "CHR ''1''"
        and d = "CHR ''B''" and e = "CHR ''C''" and f = "CHR ''5''" and g = "CHR ''0''"
        and h = "CHR ''0''" and i = "CHR ''0''" and j = "CHR ''F''" and k = "CHR ''F''"
        and l = "CHR ''F''", THEN conjunct2, THEN conjunct2, THEN conjunct2]
    by (simp add: is_upper_hex_def)
  from dl 1 2 3 4 show ?thesis by blast
qed

text \<open>The claim as stated fails on a document of two lines, \<^verbatim>\<open>00:00:0C\<close> and
  \<^verbatim>\<open>00:1B:C5:00:0F:FF/36\<close>: the refresh stores and returns the keys
  \<^verbatim>\<open>00000C000000\<close> and \<^verbatim>\<open>001BC5000FFF\<close>. Neither has a colon, and the second keeps
  the twelve bits after the 36-bit prefix.\<close>

theorem colon_free_key_counterexample:
  "oui_list ''default'' (example_world [] 1700000000000000 (Some [example_registry]))
     = (Inr [(''00000C000000'', ''Cisco''), (''001BC5000FFF'', ''Converge'')],
        (example_world [] 1700000000000000 (Some [example_registry]))
          \<lparr>trace := [RunCmd (curl_command OUI_LIST ''default''),
                      AddConfiglet ''oui.json''
                        (json_dumps [(''00000C000000'', ''Cisco''), (''001BC5000FFF'', ''Converge'')])],
           cvp := example_cache 1700000000000
                    [(''00000C000000'', ''Cisco''), (''001BC5000FFF'', ''Converge'')]\<rparr>)
   \<and> CHR '':'' \<notin> set ''00000C000000''
   \<and> ''00000C000000'' \<noteq> ''00:00:0C:00:00:00''
   \<and> CHR '':'' \<notin> set ''001BC5000FFF''
   \<and> drop 9 ''001BC5000FFF'' = ''FFF''"
proof -
  let ?w = "example_world [] 1700000000000000 (Some [example_registry])"
  let ?db = "[(''00000C000000'', ''Cisco''), (''001BC5000FFF'', ''Converge'')]"
  let ?ms = "[(''00:00:0C'', ''Cisco''), (''00:1B:C5:00:0F:FF'', ''Converge'')]"
  have loop: "download_loop ?ms [] = Inr ?db"
    by (simp add: oui_key_3 oui_key_examples merge_binding_def)
  have ne: "example_registry \<noteq> []" by (simp add: example_registry_def)
  have dl: "download ''default'' ?w
      = (Inr ?db, ?w\<lparr>trace := trace ?w @ [RunCmd (curl_command OUI_LIST ''default'')]\<rparr>)"
    using download_response [where w = ?w and response = example_registry and others = "[]"
        and vrf = "''default''"] ne
    by (simp add: example_world_def finditer_examples oui_key_3 oui_key_examples merge_binding_def)
  have "oui_list ''default'' ?w =
    (json_loads (json_dumps ?db),
     ?w\<lparr>trace := trace ?w @ [RunCmd (curl_command OUI_LIST ''default''),
                               AddConfiglet OUI_CONFIGLET (json_dumps ?db)],
        cvp := AList.update OUI_CONFIGLET
                \<lparr>key = ''configlet_'' @ OUI_CONFIGLET, dateTimeInLongFormat = clock ?w div 1000,
                 config = json_dumps ?db\<rparr> (cvp ?w)\<rparr>)"
    by (rule oui_list_add [OF _ _ dl]) (simp_all add: example_world_def)
  then have "oui_list ''default'' ?w
     = (Inr ?db, ?w\<lparr>trace := [RunCmd (curl_command OUI_LIST ''default''),
                      AddConfiglet ''oui.json'' (json_dumps ?db)],
           cvp := example_cache 1700000000000 ?db\<rparr>)"
    by (simp add: json_examples(2) example_world_def example_cache_def OUI_CONFIGLET_def)
  then show ?thesis by simp
qed

subsection \<open>Prefixes of two, four and five octets\<close>




end
